theory Spec2Isabelle
  imports Complex_Main "HOL-Library.Word" "HOL-Library.Signed_Division"
begin

section \<open>The log trace command of kes (cmd/kes/log.go)\<close>

text \<open>
  The file under verification is \<^verbatim>\<open>cmd/kes/log.go\<close>: the \<^verbatim>\<open>kes log trace\<close> command.
  It subscribes to the audit or the error log of a KES server and either prints every
  event as a line of text or shows the events as rows of a table in a terminal UI.

  The embedding follows the Go code function by function. What the code takes from
  outside the file is made explicit:
  \<^item> functions of the Go standard library that are tables or long algorithms
    (\<^verbatim>\<open>http.StatusText\<close>, \<^verbatim>\<open>Duration.String\<close>, the Unicode part of \<^verbatim>\<open>strings.ToLower\<close>,
    the \<^verbatim>\<open>%q\<close> verb) are fields of a record \<open>golib\<close> that every definition takes as a
    parameter;
  \<^item> small functions of the standard library (\<^verbatim>\<open>strings.SplitN\<close>, \<^verbatim>\<open>strings.ReplaceAll\<close>,
    \<^verbatim>\<open>Duration.Truncate\<close>, the ASCII part of \<^verbatim>\<open>strings.ToLower\<close>, the \<^verbatim>\<open>%d\<close> and \<^verbatim>\<open>%02d\<close>
    verbs) are written out;
  \<^item> the command line, the result of connecting, the terminal with its height and the
    event stream are fields of a record \<open>world\<close>;
  \<^item> output, terminal calls and \<^verbatim>\<open>os.Exit\<close> are recorded as a list of effects, in a
    session with the terminal UI each with the goroutine that issues it.
\<close>

subsection \<open>Durations (package time)\<close>

text \<open>
  A \<^verbatim>\<open>time.Duration\<close> is an \<^verbatim>\<open>int64\<close> count of nanoseconds. Comparisons are signed
  (\<open>\<le>s\<close>). Go's remainder \<^verbatim>\<open>%\<close> truncates towards zero (\<open>smod\<close> on the signed values).
\<close>

type_synonym Duration = "64 word"

definition Nanosecond :: Duration where
  "Nanosecond = 1"

definition Microsecond :: Duration where
  "Microsecond = 1000 * Nanosecond"

definition Millisecond :: Duration where
  "Millisecond = 1000 * Microsecond"

definition Second :: Duration where
  "Second = 1000 * Millisecond"

definition rem64 :: "64 word \<Rightarrow> 64 word \<Rightarrow> 64 word" where
  "rem64 a b = word_of_int (sint a smod sint b)"

text \<open>
  \<^verbatim>\<open>func (d Duration) Truncate(m Duration) Duration { if m <= 0 { return d }; return d - d%m }\<close>
\<close>

definition Truncate :: "Duration \<Rightarrow> Duration \<Rightarrow> Duration" where
  "Truncate d m = (if m \<le>s 0 then d else d - rem64 d m)"

subsection \<open>Formatting verbs and string functions (packages fmt and strings)\<close>

definition digit_char :: "nat \<Rightarrow> char" where
  "digit_char n = char_of (48 + n)"

fun digits :: "nat \<Rightarrow> string" where
  "digits n = (if n < 10 then [digit_char n] else digits (n div 10) @ [digit_char (n mod 10)])"

declare digits.simps [simp del]

text \<open>The verb \<^verbatim>\<open>%d\<close> on an \<^verbatim>\<open>int\<close>.\<close>

definition fmt_d :: "int \<Rightarrow> string" where
  "fmt_d i = (if i < 0 then CHR ''-'' # digits (nat (- i)) else digits (nat i))"

text \<open>
  The verb \<^verbatim>\<open>%02d\<close>: width 2, padded with zeros; the sign counts for the width.
\<close>

definition fmt_02d :: "int \<Rightarrow> string" where
  "fmt_02d i =
     (if i < 0 then CHR ''-'' # digits (nat (- i))
      else if i < 10 then CHR ''0'' # digits (nat i)
      else digits (nat i))"

text \<open>The verb \<^verbatim>\<open>%v\<close> on an \<^verbatim>\<open>error\<close>: the text of the error, \<^verbatim>\<open><nil>\<close> for \<^verbatim>\<open>nil\<close>.\<close>

definition fmt_v :: "string option \<Rightarrow> string" where
  "fmt_v err = (case err of None \<Rightarrow> ''<nil>'' | Some e \<Rightarrow> e)"

text \<open>
  \<^verbatim>\<open>strings.SplitN(s, sep, n)\<close> for a separator of one byte: at most \<open>n\<close> substrings, the
  last one the unsplit remainder; \<open>n = 0\<close> gives no substring at all.
\<close>

fun SplitN :: "string \<Rightarrow> char \<Rightarrow> nat \<Rightarrow> string list" where
  "SplitN s sep 0 = []"
| "SplitN s sep (Suc 0) = [s]"
| "SplitN s sep (Suc (Suc n)) =
     (if sep \<in> set s
      then takeWhile (\<lambda>c. c \<noteq> sep) s # SplitN (tl (dropWhile (\<lambda>c. c \<noteq> sep) s)) sep (Suc n)
      else [s])"

text \<open>\<^verbatim>\<open>strings.ReplaceAll(s, old, new)\<close> for \<open>old\<close> and \<open>new\<close> of one byte each.\<close>

definition ReplaceAll :: "string \<Rightarrow> char \<Rightarrow> char \<Rightarrow> string" where
  "ReplaceAll s old new = map (\<lambda>c. if c = old then new else c) s"

definition newline :: char where
  "newline = CHR 0x0A"

definition space :: char where
  "space = CHR '' ''"

text \<open>
  The library functions that stay parameters. \<open>MapUnicodeToLower\<close> is
  \<^verbatim>\<open>strings.Map(unicode.ToLower, s)\<close>, \<open>StatusText\<close> is \<^verbatim>\<open>http.StatusText\<close>,
  \<open>DurationString\<close> is \<^verbatim>\<open>Duration.String\<close> and \<open>Quote\<close> is the verb \<^verbatim>\<open>%q\<close> on a string.
\<close>

record golib =
  MapUnicodeToLower :: "string \<Rightarrow> string"
  StatusText :: "int \<Rightarrow> string"
  DurationString :: "Duration \<Rightarrow> string"
  Quote :: "string \<Rightarrow> string"

text \<open>
  \<^verbatim>\<open>strings.ToLower\<close> first looks whether every byte of the string is below
  \<^verbatim>\<open>utf8.RuneSelf\<close> (128). If so it adds \<^verbatim>\<open>'a' - 'A'\<close> to every byte between \<^verbatim>\<open>'A'\<close> and
  \<^verbatim>\<open>'Z'\<close> and keeps the others; otherwise it returns \<^verbatim>\<open>Map(unicode.ToLower, s)\<close>.
\<close>

definition asciiLowerChar :: "char \<Rightarrow> char" where
  "asciiLowerChar c =
     (if 65 \<le> (of_char c :: nat) \<and> (of_char c :: nat) \<le> 90
      then char_of ((of_char c :: nat) + 32) else c)"

definition asciiToLower :: "string \<Rightarrow> string" where
  "asciiToLower s = map asciiLowerChar s"

definition isASCII :: "string \<Rightarrow> bool" where
  "isASCII s = list_all (\<lambda>c. (of_char c :: nat) < 128) s"

definition ToLower :: "golib \<Rightarrow> string \<Rightarrow> string" where
  "ToLower lib s = (if isASCII s then asciiToLower s else MapUnicodeToLower lib s)"

text \<open>
  A library value for evaluating the definitions at concrete inputs: strings with a byte
  from 128 on are left as they are, two entries of the table of \<^verbatim>\<open>http.StatusText\<close>,
  durations as a count of nanoseconds and quoting without escapes.
\<close>

definition sampleLib :: golib where
  "sampleLib = \<lparr>MapUnicodeToLower = (\<lambda>s. s),
     StatusText = (\<lambda>c. if c = 200 then ''OK'' else if c = 404 then ''Not Found'' else []),
     DurationString = (\<lambda>d. fmt_d (sint d) @ ''ns''),
     Quote = (\<lambda>s. CHR 0x22 # s @ [CHR 0x22])\<rparr>"

subsection \<open>The table of package xterm\<close>

text \<open>
  Modelled from the spec: the types of package \<^verbatim>\<open>internal/xterm\<close>, which is not part of
  the file. A cell has a text and an optional colour, a header has a name, a fractional
  width and an alignment, a table has its headers, fixed at construction, and its
  buffered rows. The colours are the two that the file uses.
\<close>

datatype color = FgGreen | FgRed

datatype alignment = AlignLeft | AlignCenter

record Cell =
  Text :: string
  Color :: "color option"

record Header =
  Name :: string
  Width :: real
  Alignment :: alignment

record Table =
  Headers :: "Header list"
  Rows :: "Cell list list"

text \<open>Modelled from the spec: \<^verbatim>\<open>xterm.NewCell\<close>, a cell with the text and no colour.\<close>

definition NewCell :: "string \<Rightarrow> Cell" where
  "NewCell s = \<lparr>Text = s, Color = None\<rparr>"

text \<open>
  Modelled from the spec: \<^verbatim>\<open>xterm.NewTable\<close>, one header for each name and no row. The
  width and the alignment a new header starts with are not specified: they are the
  parameters \<open>w0\<close> and \<open>a0\<close>.
\<close>

definition NewTable :: "real \<Rightarrow> alignment \<Rightarrow> string list \<Rightarrow> Table" where
  "NewTable w0 a0 names =
     \<lparr>Headers = map (\<lambda>n. \<lparr>Name = n, Width = w0, Alignment = a0\<rparr>) names, Rows = []\<rparr>"

text \<open>
  Modelled from the spec: \<^verbatim>\<open>Table.AddRow\<close> appends the row to the buffered rows, in
  constant time, and does not paint. The rows that the terminal has no room for scroll off
  at the next draw.
\<close>

definition AddRow :: "Table \<Rightarrow> Cell list \<Rightarrow> Table" where
  "AddRow t cells = t\<lparr>Rows := Rows t @ [cells]\<rparr>"

text \<open>
  Modelled from the spec: the capacity of the buffered rows is bounded by the visible
  height of the terminal. How many rows a terminal of a given height has room for is not
  specified (the header takes room too): it is the parameter \<open>fit\<close>, cut at the height.
\<close>

definition capacity :: "(nat \<Rightarrow> nat) \<Rightarrow> nat \<Rightarrow> nat" where
  "capacity fit height = min (fit height) height"

text \<open>
  Modelled from the spec: the oldest rows scroll off, so that at most \<open>n\<close> rows, the most
  recent ones, stay buffered.
\<close>

definition scrollOff :: "nat \<Rightarrow> Table \<Rightarrow> Table" where
  "scrollOff n t = t\<lparr>Rows := drop (length (Rows t) - n) (Rows t)\<rparr>"

text \<open>
  Modelled from the spec: \<^verbatim>\<open>Table.Draw\<close> is a full repaint. It queries the dimensions of
  the terminal afresh, lets the rows that no longer fit scroll off and paints the header
  and the rows that are buffered then. Drawing twice in a row is drawing once.
\<close>

definition Draw :: "(nat \<Rightarrow> nat) \<Rightarrow> nat \<Rightarrow> Table \<Rightarrow> Table" where
  "Draw fit height t = scrollOff (capacity fit height) t"

text \<open>
  The assignments \<^verbatim>\<open>table.Header()[i].Width = w\<close> and \<^verbatim>\<open>table.Header()[i].Alignment = a\<close>.
  The file only uses indices below the number of names it gave to \<^verbatim>\<open>NewTable\<close>.
\<close>

definition setWidth :: "nat \<Rightarrow> real \<Rightarrow> Table \<Rightarrow> Table" where
  "setWidth i w t = t\<lparr>Headers := (Headers t)[i := (Headers t ! i)\<lparr>Width := w\<rparr>]\<rparr>"

definition setAlignment :: "nat \<Rightarrow> alignment \<Rightarrow> Table \<Rightarrow> Table" where
  "setAlignment i a t = t\<lparr>Headers := (Headers t)[i := (Headers t ! i)\<lparr>Alignment := a\<rparr>]\<rparr>"

subsection \<open>Events (packages kes and termui)\<close>

text \<open>
  The fields of a \<^verbatim>\<open>kes.AuditEvent\<close> that the file reads. \<open>Time_Clock\<close> is what
  \<^verbatim>\<open>event.Time.Clock()\<close> returns: hour, minute and second.
\<close>

type_synonym clock = "int \<times> int \<times> int"

record AuditEvent =
  Time_Clock :: clock
  Request_Identity :: string
  Request_Path :: string
  Response_StatusCode :: int
  Response_Time :: Duration

record ErrorEvent =
  Message :: string

datatype ui_EventType = KeyboardEvent | MouseEvent | ResizeEvent

text \<open>
  A \<^verbatim>\<open>ui.Event\<close>. The payload of a resize event is the new width and height of the
  terminal; other events carry none here.
\<close>

record ui_Event =
  Type :: ui_EventType
  ID :: string
  Payload :: "(nat \<times> nat) option"

subsection \<open>The rows\<close>

definition StatusOK :: int where
  "StatusOK = 200"

text \<open>
  The \<^verbatim>\<open>switch\<close> of lines 198 to 205: the text of the response-time cell.
\<close>

definition respTimeText :: "golib \<Rightarrow> Duration \<Rightarrow> string" where
  "respTimeText lib d =
     (if Second \<le>s d then DurationString lib (Truncate d (10 * Millisecond))
      else if Millisecond \<le>s d then DurationString lib (Truncate d (10 * Microsecond))
      else DurationString lib (Truncate d Microsecond))"

text \<open>The same \<^verbatim>\<open>switch\<close>, for the duration handed to \<^verbatim>\<open>String\<close> and for the unit chosen.\<close>

definition respDuration :: "Duration \<Rightarrow> Duration" where
  "respDuration d =
     (if Second \<le>s d then Truncate d (10 * Millisecond)
      else if Millisecond \<le>s d then Truncate d (10 * Microsecond)
      else Truncate d Microsecond)"

definition respUnit :: "Duration \<Rightarrow> Duration" where
  "respUnit d =
     (if Second \<le>s d then 10 * Millisecond
      else if Millisecond \<le>s d then 10 * Microsecond
      else Microsecond)"

text \<open>The text \<^verbatim>\<open>fmt.Sprintf("%02d:%02d:%02d", hh, mm, ss)\<close>.\<close>

definition clockText :: "clock \<Rightarrow> string" where
  "clockText c = (case c of (hh, mm, ss) \<Rightarrow> fmt_02d hh @ '':'' @ fmt_02d mm @ '':'' @ fmt_02d ss)"

text \<open>The status cell of an audit row (lines 185 and 190 to 194).\<close>

definition statusCell :: "golib \<Rightarrow> int \<Rightarrow> Cell" where
  "statusCell lib code =
     (let status = NewCell (fmt_d code @ '' '' @ StatusText lib code)
      in if code = StatusOK then status\<lparr>Color := Some FgGreen\<rparr>
         else status\<lparr>Color := Some FgRed\<rparr>)"

text \<open>The body of the loop of \<^verbatim>\<open>traceAuditLogWithUI\<close> up to \<^verbatim>\<open>table.AddRow\<close>: the row of an event.\<close>

definition auditRow :: "golib \<Rightarrow> AuditEvent \<Rightarrow> Cell list" where
  "auditRow lib event =
     (let identity = NewCell (Request_Identity event);
          status = statusCell lib (Response_StatusCode event);
          path = NewCell (Request_Path event);
          reqTime = NewCell (clockText (Time_Clock event));
          respTime = NewCell (respTimeText lib (Response_Time event))
      in [reqTime, identity, status, path, respTime])"

text \<open>
  The body of the loop of \<^verbatim>\<open>traceErrorLogWithUI\<close> up to \<^verbatim>\<open>table.AddRow\<close>. \<open>now\<close> is what
  \<^verbatim>\<open>time.Now().Clock()\<close> returns when the row is built.
\<close>

definition errorRow :: "clock \<Rightarrow> ErrorEvent \<Rightarrow> Cell list" where
  "errorRow now event =
     (let segments = SplitN (Message event) space 3
      in if length segments = 3
         then (let message = NewCell (ReplaceAll (segments ! 2) newline space);
                   reqTime = NewCell (segments ! 1)
               in [reqTime, message])
         else (let message = NewCell (ReplaceAll (Message event) newline space);
                   reqTime = NewCell (clockText now)
               in [reqTime, message]))"

subsection \<open>The tables\<close>

text \<open>Lines 138 to 149 and lines 221 to 226.\<close>

definition auditTable :: "real \<Rightarrow> alignment \<Rightarrow> Table" where
  "auditTable w0 a0 =
     (setAlignment 4 AlignCenter \<circ> setAlignment 3 AlignLeft \<circ> setAlignment 2 AlignCenter \<circ>
      setAlignment 1 AlignCenter \<circ> setAlignment 0 AlignCenter \<circ>
      setWidth 4 (12 / 100) \<circ> setWidth 3 (45 / 100) \<circ> setWidth 2 (15 / 100) \<circ>
      setWidth 1 (15 / 100) \<circ> setWidth 0 (12 / 100))
     (NewTable w0 a0 [''Time'', ''Identity'', ''Status'', ''API Operations'', ''Response''])"

definition errorTable :: "real \<Rightarrow> alignment \<Rightarrow> Table" where
  "errorTable w0 a0 =
     (setAlignment 1 AlignLeft \<circ> setAlignment 0 AlignCenter \<circ>
      setWidth 1 (87 / 100) \<circ> setWidth 0 (12 / 100))
     (NewTable w0 a0 [''Time'', ''Error''])"

subsection \<open>Effects and outcomes\<close>

text \<open>
  What a run does to the outside, in order: \<^verbatim>\<open>ui.Init\<close> and \<^verbatim>\<open>ui.Close\<close> acquire and
  release the terminal, \<open>TableDraw\<close> is a call of \<^verbatim>\<open>table.Draw()\<close> with the rows buffered
  at that moment, \<open>StreamClose\<close> is a call of \<^verbatim>\<open>stream.Close()\<close>, \<open>Stdout\<close> and \<open>Stderr\<close>
  are lines written to the standard streams and \<open>LogOutput\<close> is a line written through the
  standard logger.
\<close>

datatype effect =
    UiInit
  | UiClose
  | TableDraw "Cell list list"
  | StreamClose
  | Stdout string
  | Stderr string
  | LogOutput string

text \<open>
  A function either returns to its caller or ends the process through \<^verbatim>\<open>os.Exit\<close>.
  \<^verbatim>\<open>log.Fatal\<close> and \<^verbatim>\<open>log.Fatalf\<close> write the message and call \<^verbatim>\<open>os.Exit(1)\<close>. \<^verbatim>\<open>os.Exit\<close>
  ends the process at once: deferred calls do not run.
\<close>

datatype outcome = Returns | Exits nat

type_synonym run = "effect list \<times> outcome"

definition Fatalf :: "effect list \<Rightarrow> string \<Rightarrow> run" where
  "Fatalf done msg = (done @ [LogOutput msg], Exits 1)"

text \<open>
  The status of the process: the argument of \<^verbatim>\<open>os.Exit\<close>, and 0 when the command returns
  and the program ends by returning from \<^verbatim>\<open>main\<close>.
\<close>

definition exitCode :: "run \<Rightarrow> nat" where
  "exitCode r = (case snd r of Returns \<Rightarrow> 0 | Exits c \<Rightarrow> c)"

subsection \<open>A session with the terminal UI\<close>

text \<open>
  While the loop \<^verbatim>\<open>for stream.Next()\<close> runs, a second goroutine reads the events of the
  terminal. A session is driven by what happens, in the order it happens: the stream
  delivers an event, or the terminal delivers one. The goroutine handles a terminal
  event as lines 162 to 170 do: a resize draws the table, \<^verbatim>\<open><C-c>\<close> or \<^verbatim>\<open><Escape>\<close> closes
  the stream and ends the goroutine, anything else is skipped. Once the stream is closed
  \<^verbatim>\<open>stream.Next()\<close> returns false, so the loop ends there. When nothing is left to
  happen the stream has ended by itself.
\<close>

datatype 'e occurrence = StreamEvent 'e | UiEvent ui_Event

text \<open>
  The two goroutines of a session: the consumer is the function itself, with its loop
  \<^verbatim>\<open>for stream.Next()\<close>; the listener is the goroutine of lines 159 to 172 (236 to 249).
\<close>

datatype goroutine = Consumer | Listener

text \<open>
  The state of a session: the table, the height of the terminal, the effects so far, each
  with the goroutine whose code issued it, and whether the listener has closed the stream.
\<close>

record ui_state =
  table :: Table
  termHeight :: nat
  trace :: "(goroutine \<times> effect) list"
  closed :: bool

text \<open>A call of \<^verbatim>\<open>table.Draw()\<close> by the goroutine \<open>g\<close>.\<close>

definition draw :: "(nat \<Rightarrow> nat) \<Rightarrow> goroutine \<Rightarrow> ui_state \<Rightarrow> ui_state" where
  "draw fit g st =
     (let t = Draw fit (termHeight st) (table st)
      in st\<lparr>table := t, trace := trace st @ [(g, TableDraw (Rows t))]\<rparr>)"

text \<open>The call \<^verbatim>\<open>table.AddRow(...)\<close> of the consumer (lines 207 and 274).\<close>

definition addRow :: "Cell list \<Rightarrow> ui_state \<Rightarrow> ui_state" where
  "addRow cells st = st\<lparr>table := AddRow (table st) cells\<rparr>"

text \<open>
  The terminal has a new size when it delivers a resize event: the height of the payload.
\<close>

definition resizeTerminal :: "ui_Event \<Rightarrow> ui_state \<Rightarrow> ui_state" where
  "resizeTerminal event st =
     (case Payload event of None \<Rightarrow> st | Some (width, height) \<Rightarrow> st\<lparr>termHeight := height\<rparr>)"

text \<open>
  The listener calls \<^verbatim>\<open>stream.Close()\<close>; when that returns an error it writes the line
  \<open>prefix @ err\<close> to the standard error stream.
\<close>

definition closeStream :: "string \<Rightarrow> string option \<Rightarrow> ui_state \<Rightarrow> ui_state" where
  "closeStream prefix cerr st =
     st\<lparr>trace := trace st @ (Listener, StreamClose) #
           (case cerr of None \<Rightarrow> [] | Some err \<Rightarrow> [(Listener, Stderr (prefix @ err))]),
        closed := True\<rparr>"

text \<open>
  The two loops of the file differ in the row they build and in their messages only.
  \<open>uiLoop\<close> is both of them, with the row as the parameter \<open>row\<close>. A stream event is
  handled by the consumer (lines 180 to 208), a terminal event by the listener (lines 162
  to 170).
\<close>

fun uiLoop :: "(nat \<Rightarrow> nat) \<Rightarrow> ('e \<Rightarrow> Cell list) \<Rightarrow> string \<Rightarrow> string option \<Rightarrow> ui_state \<Rightarrow>
    'e occurrence list \<Rightarrow> ui_state" where
  "uiLoop fit row prefix cerr st [] = st"
| "uiLoop fit row prefix cerr st (StreamEvent e # occs) =
     uiLoop fit row prefix cerr (draw fit Consumer (addRow (row e) st)) occs"
| "uiLoop fit row prefix cerr st (UiEvent event # occs) =
     (if Type event = ResizeEvent
      then uiLoop fit row prefix cerr (draw fit Listener (resizeTerminal event st)) occs
      else if ID event = ''<C-c>'' \<or> ID event = ''<Escape>''
      then closeStream prefix cerr st
      else uiLoop fit row prefix cerr st occs)"

text \<open>
  What the functions get from outside: the command line (\<open>typeFlag\<close>, \<open>jsonOutput\<close>,
  \<open>NArg\<close>), whether standard output is a terminal, the error of connecting to the log,
  the error of \<^verbatim>\<open>ui.Init()\<close>, the error that \<^verbatim>\<open>stream.Close()\<close> returns, the error that
  \<^verbatim>\<open>stream.Err()\<close> returns after the stream ended by itself and after it was closed, the
  defaults of a new table header, the height of the terminal at the start and the rows
  that a terminal of a given height has room for, and what happens during the session:
  \<open>auditFeed\<close> and \<open>errorFeed\<close> for the UI (an error event comes with the clock reading at
  the moment its row is built), \<open>rawFeed\<close> for the output as text.
\<close>

datatype raw_occurrence = NextBytes string | Signal

record world =
  typeFlag :: string
  jsonOutput :: bool
  NArg :: nat
  stdoutIsTerm :: bool
  connectErr :: "string option"
  uiInitErr :: "string option"
  closeErr :: "string option"
  errAtEnd :: "string option"
  errAfterClose :: "string option"
  headerWidth0 :: real
  headerAlignment0 :: alignment
  termHeight0 :: nat
  rowsThatFit :: "nat \<Rightarrow> nat"
  auditFeed :: "AuditEvent occurrence list"
  errorFeed :: "(clock \<times> ErrorEvent) occurrence list"
  rawFeed :: "raw_occurrence list"

text \<open>What \<^verbatim>\<open>stream.Err()\<close> returns once the loop has ended.\<close>

definition streamErr :: "world \<Rightarrow> bool \<Rightarrow> string option" where
  "streamErr w wasClosed = (if wasClosed then errAfterClose w else errAtEnd w)"

text \<open>
  The state in which the loop of \<^verbatim>\<open>traceAuditLogWithUI\<close> ends: after \<^verbatim>\<open>ui.Init()\<close> and the
  first \<^verbatim>\<open>table.Draw()\<close> (line 178), the loop of lines 179 to 209 together with the
  listener of lines 159 to 172.
\<close>

definition auditSession :: "golib \<Rightarrow> world \<Rightarrow> ui_state" where
  "auditSession lib w =
     uiLoop (rowsThatFit w) (auditRow lib) ''Error: audit log stream closed with: ''
       (closeErr w)
       (draw (rowsThatFit w) Consumer
          \<lparr>table = auditTable (headerWidth0 w) (headerAlignment0 w),
           termHeight = termHeight0 w, trace = [(Consumer, UiInit)], closed = False\<rparr>)
       (auditFeed w)"

text \<open>
  The two deferred calls run when the function returns, the last deferred first:
  \<^verbatim>\<open>ui.Close()\<close>, then \<^verbatim>\<open>table.Draw()\<close>.
\<close>

definition deferred :: "(nat \<Rightarrow> nat) \<Rightarrow> ui_state \<Rightarrow> ui_state" where
  "deferred fit st = draw fit Consumer (st\<lparr>trace := trace st @ [(Consumer, UiClose)]\<rparr>)"

text \<open>
  \<^verbatim>\<open>traceAuditLogWithUI\<close>. The deferred calls do not run when the function ends in
  \<^verbatim>\<open>stdlog.Fatalf\<close>.
\<close>

definition traceAuditLogWithUI :: "golib \<Rightarrow> world \<Rightarrow> run" where
  "traceAuditLogWithUI lib w =
     (case uiInitErr w of
        Some err \<Rightarrow> Fatalf [] (''Error: '' @ err)
      | None \<Rightarrow>
          (let st = auditSession lib w
           in case streamErr w (closed st) of
                Some err \<Rightarrow>
                  Fatalf (map snd (trace st)) (''Error: audit log stream closed with: '' @ err)
              | None \<Rightarrow> (map snd (trace (deferred (rowsThatFit w) st)), Returns)))"

definition errorSession :: "world \<Rightarrow> ui_state" where
  "errorSession w =
     uiLoop (rowsThatFit w) (\<lambda>(now, event). errorRow now event)
       ''Error: error log stream closed with: '' (closeErr w)
       (draw (rowsThatFit w) Consumer
          \<lparr>table = errorTable (headerWidth0 w) (headerAlignment0 w),
           termHeight = termHeight0 w, trace = [(Consumer, UiInit)], closed = False\<rparr>)
       (errorFeed w)"

definition traceErrorLogWithUI :: "world \<Rightarrow> run" where
  "traceErrorLogWithUI w =
     (case uiInitErr w of
        Some err \<Rightarrow> Fatalf [] (''Error: '' @ err)
      | None \<Rightarrow>
          (let st = errorSession w
           in case streamErr w (closed st) of
                Some err \<Rightarrow>
                  Fatalf (map snd (trace st)) (''Error: error log stream closed with: '' @ err)
              | None \<Rightarrow> (map snd (trace (deferred (rowsThatFit w) st)), Returns)))"

subsection \<open>A session that prints the events as text\<close>

text \<open>
  \<^verbatim>\<open>closeOn\<close> starts a goroutine that waits for one signal and then closes the stream,
  writing the error of \<^verbatim>\<open>Close\<close> to the standard error stream. The loop prints the bytes
  of every event. The result is the effects and whether the stream was closed.
\<close>

fun rawLoop :: "string option \<Rightarrow> raw_occurrence list \<Rightarrow> effect list \<times> bool" where
  "rawLoop cerr [] = ([], False)"
| "rawLoop cerr (NextBytes b # occs) =
     (case rawLoop cerr occs of (effs, c) \<Rightarrow> (Stdout b # effs, c))"
| "rawLoop cerr (Signal # occs) =
     (StreamClose # (case cerr of None \<Rightarrow> [] | Some err \<Rightarrow> [Stderr err]), True)"

text \<open>Lines 104 to 108 and lines 120 to 124: the loop, then \<^verbatim>\<open>stdlog.Fatalf\<close>.\<close>

definition traceRaw :: "string \<Rightarrow> world \<Rightarrow> run" where
  "traceRaw prefix w =
     (case rawLoop (closeErr w) (rawFeed w) of
        (effs, wasClosed) \<Rightarrow> Fatalf effs (prefix @ fmt_v (streamErr w wasClosed)))"

subsection \<open>The command\<close>

text \<open>The \<^verbatim>\<open>switch\<close> on \<^verbatim>\<open>strings.ToLower(typeFlag)\<close> of line 95.\<close>

datatype mode = AuditMode | ErrorMode | InvalidType

definition traceMode :: "golib \<Rightarrow> string \<Rightarrow> mode" where
  "traceMode lib t =
     (let l = ToLower lib t
      in if l = ''audit'' then AuditMode else if l = ''error'' then ErrorMode else InvalidType)"

text \<open>
  \<^verbatim>\<open>defer stream.Close()\<close> of lines 101 and 117 runs when \<^verbatim>\<open>logTrace\<close> returns, and only then.
\<close>

definition deferStreamClose :: "run \<Rightarrow> run" where
  "deferStreamClose r =
     (case snd r of Returns \<Rightarrow> (fst r @ [StreamClose], Returns) | Exits c \<Rightarrow> r)"

text \<open>The case \<^verbatim>\<open>"audit"\<close> of the \<^verbatim>\<open>switch\<close> (lines 97 to 111).\<close>

definition traceAudit :: "golib \<Rightarrow> world \<Rightarrow> run" where
  "traceAudit lib w =
     (case connectErr w of
        Some err \<Rightarrow> Fatalf [] (''Error: failed to connect to audit log: '' @ err)
      | None \<Rightarrow>
          if \<not> stdoutIsTerm w \<or> jsonOutput w
          then traceRaw ''Error: audit log closed with: '' w
          else deferStreamClose (traceAuditLogWithUI lib w))"

text \<open>The case \<^verbatim>\<open>"error"\<close> of the \<^verbatim>\<open>switch\<close> (lines 113 to 126).\<close>

definition traceError :: "world \<Rightarrow> run" where
  "traceError w =
     (case connectErr w of
        Some err \<Rightarrow> Fatalf [] (''Error: failed to connect to error log: '' @ err)
      | None \<Rightarrow>
          if \<not> stdoutIsTerm w \<or> jsonOutput w
          then traceRaw ''Error: error log closed with: '' w
          else deferStreamClose (traceErrorLogWithUI w))"

definition logTrace :: "golib \<Rightarrow> world \<Rightarrow> run" where
  "logTrace lib w =
     (if NArg w > 0 then Fatalf [] ''Error: too many arguments''
      else case traceMode lib (typeFlag w) of
        AuditMode \<Rightarrow> traceAudit lib w
      | ErrorMode \<Rightarrow> traceError w
      | InvalidType \<Rightarrow>
          Fatalf [] (''Error: invalid log type --type: '' @ Quote lib (typeFlag w)))"

subsection \<open>Definitions that follow the specification\<close>

text \<open>
  Rounding a count \<open>d\<close> down in magnitude to a multiple of \<open>m\<close>: the multiple of \<open>m\<close> next
  to \<open>d\<close> on the side of zero.
\<close>

definition trunc_toward_zero :: "int \<Rightarrow> int \<Rightarrow> int" where
  "trunc_toward_zero d m = sgn d * (m * (\<bar>d\<bar> div m))"

text \<open>
  The resolution the specification gives for a duration of \<open>ns\<close> nanoseconds: 10
  milliseconds from one second on, 10 microseconds from one millisecond on, one
  microsecond below.
\<close>

definition spec_resolution :: "int \<Rightarrow> int" where
  "spec_resolution ns =
     (if 1000000000 \<le> ns then 10000000
      else if 1000000 \<le> ns then 10000
      else 1000)"

text \<open>
  A text in which every line break of \<open>s\<close> is replaced by a single space: \<open>t\<close> has the
  bytes of \<open>s\<close>, one for one, with a space wherever \<open>s\<close> has a line break.
\<close>

definition newlinesToSpaces :: "string \<Rightarrow> string \<Rightarrow> bool" where
  "newlinesToSpaces s t =
     list_all2 (\<lambda>a b. b = (if a = CHR 0x0A then CHR '' '' else a)) s t"

text \<open>
  A wall-clock time as \<^verbatim>\<open>HH:MM:SS\<close>: two decimal digits each for the hour, the minute
  and the second. A clock reading has its hour below 24 and its minute and second below 60.
\<close>

definition decimalDigit :: "int \<Rightarrow> char" where
  "decimalDigit n = ''0123456789'' ! nat n"

definition twoDigits :: "int \<Rightarrow> string" where
  "twoDigits n = [decimalDigit (n div 10), decimalDigit (n mod 10)]"

definition spec_HHMMSS :: "clock \<Rightarrow> string" where
  "spec_HHMMSS c =
     (case c of (hh, mm, ss) \<Rightarrow> twoDigits hh @ '':'' @ twoDigits mm @ '':'' @ twoDigits ss)"

definition validClock :: "clock \<Rightarrow> bool" where
  "validClock c =
     (case c of (hh, mm, ss) \<Rightarrow> 0 \<le> hh \<and> hh < 24 \<and> 0 \<le> mm \<and> mm < 60 \<and> 0 \<le> ss \<and> ss < 60)"

text \<open>
  The lower-case form of a string of ASCII bytes: \<open>l\<close> has the bytes of \<open>t\<close>, one for one,
  with the small letter wherever \<open>t\<close> has a capital letter.
\<close>

definition lowerCaseOf :: "string \<Rightarrow> string \<Rightarrow> bool" where
  "lowerCaseOf t l =
     list_all2 (\<lambda>a b. (of_char b :: nat) =
        (if (of_char (CHR ''A'') :: nat) \<le> of_char a \<and> (of_char a :: nat) \<le> of_char (CHR ''Z'')
         then of_char a + (of_char (CHR ''a'') - of_char (CHR ''A'')) else of_char a)) t l"

text \<open>
  The data events of a session in the order of their arrival, the sessions in which the
  terminal delivers nothing but resize events, and the part of a session that is handled:
  what happens before the first \<^verbatim>\<open><C-c>\<close> or \<^verbatim>\<open><Escape>\<close>.
\<close>

fun dataEvents :: "'e occurrence list \<Rightarrow> 'e list" where
  "dataEvents [] = []"
| "dataEvents (StreamEvent e # occs) = e # dataEvents occs"
| "dataEvents (UiEvent event # occs) = dataEvents occs"

fun isResize :: "'e occurrence \<Rightarrow> bool" where
  "isResize (StreamEvent e) = False"
| "isResize (UiEvent event) = (Type event = ResizeEvent)"


fun isCancel :: "'e occurrence \<Rightarrow> bool" where
  "isCancel (StreamEvent e) = False"
| "isCancel (UiEvent event) =
     (Type event \<noteq> ResizeEvent \<and> (ID event = ''<C-c>'' \<or> ID event = ''<Escape>''))"

fun handled :: "'e occurrence list \<Rightarrow> 'e occurrence list" where
  "handled [] = []"
| "handled (occ # occs) = (if isCancel occ then [] else occ # handled occs)"



text \<open>
  The calls of \<^verbatim>\<open>table.Draw()\<close> that a goroutine issues, and what it means that all
  paints come from a single owner: one of the two goroutines never draws.
\<close>

fun isDraw :: "effect \<Rightarrow> bool" where
  "isDraw (TableDraw rows) = True"
| "isDraw UiInit = False"
| "isDraw UiClose = False"
| "isDraw StreamClose = False"
| "isDraw (Stdout line) = False"
| "isDraw (Stderr line) = False"
| "isDraw (LogOutput line) = False"

definition drawsBy :: "goroutine \<Rightarrow> (goroutine \<times> effect) list \<Rightarrow> nat" where
  "drawsBy g tr = length (filter (\<lambda>(g', e). g' = g \<and> isDraw e) tr)"

definition singlePainter :: "(goroutine \<times> effect) list \<Rightarrow> bool" where
  "singlePainter tr = (drawsBy Consumer tr = 0 \<or> drawsBy Listener tr = 0)"

text \<open>What the listener does besides drawing: it closes the stream and reports the error.\<close>

fun closesStream :: "effect \<Rightarrow> bool" where
  "closesStream StreamClose = True"
| "closesStream (Stderr line) = True"
| "closesStream (TableDraw rows) = False"
| "closesStream UiInit = False"
| "closesStream UiClose = False"
| "closesStream (Stdout line) = False"
| "closesStream (LogOutput line) = False"

definition byConsumerOrListenerDuty :: "goroutine \<times> effect \<Rightarrow> bool" where
  "byConsumerOrListenerDuty ge = (fst ge = Consumer \<or> isDraw (snd ge) \<or> closesStream (snd ge))"

subsection \<open>Concrete sessions\<close>

text \<open>
  A session with the terminal UI on the audit log in which the stream ends by itself with
  an error before any event arrived.
\<close>

definition abnormalEndWorld :: world where
  "abnormalEndWorld =
     \<lparr>typeFlag = ''audit'', jsonOutput = False, NArg = 0, stdoutIsTerm = True,
      connectErr = None, uiInitErr = None, closeErr = None,
      errAtEnd = Some ''unexpected EOF'', errAfterClose = None,
      headerWidth0 = 0, headerAlignment0 = AlignLeft,
      termHeight0 = 24, rowsThatFit = (\<lambda>h. h - 1),
      auditFeed = [], errorFeed = [], rawFeed = []\<rparr>"

text \<open>
  A session that prints the audit log as text (\<^verbatim>\<open>--json\<close>): one event arrives, then the
  user interrupts; closing the stream succeeds and the stream reports no error.
\<close>

definition cleanCancelRawWorld :: world where
  "cleanCancelRawWorld =
     \<lparr>typeFlag = ''audit'', jsonOutput = True, NArg = 0, stdoutIsTerm = True,
      connectErr = None, uiInitErr = None, closeErr = None,
      errAtEnd = None, errAfterClose = None,
      headerWidth0 = 0, headerAlignment0 = AlignLeft,
      termHeight0 = 24, rowsThatFit = (\<lambda>h. h - 1),
      auditFeed = [], errorFeed = [], rawFeed = [NextBytes ''{}'', Signal]\<rparr>"

text \<open>
  A session with the terminal UI: two audit events with a resize between them, two error
  events with a resize between them, then the user presses \<^verbatim>\<open><C-c>\<close>.
\<close>

definition sampleAudit1 :: AuditEvent where
  "sampleAudit1 = \<lparr>Time_Clock = (10, 2, 3), Request_Identity = ''alice'',
     Request_Path = ''/v1/key/create/k'', Response_StatusCode = 200,
     Response_Time = 345678\<rparr>"

definition sampleAudit2 :: AuditEvent where
  "sampleAudit2 = \<lparr>Time_Clock = (10, 2, 4), Request_Identity = ''bob'',
     Request_Path = ''/v1/key/delete/k'', Response_StatusCode = 404,
     Response_Time = 1234000000\<rparr>"

definition resize :: ui_Event where
  "resize = \<lparr>Type = ResizeEvent, ID = ''<Resize>'', Payload = Some (80, 30)\<rparr>"

definition ctrlC :: ui_Event where
  "ctrlC = \<lparr>Type = KeyboardEvent, ID = ''<C-c>'', Payload = None\<rparr>"

definition resizeWorld :: world where
  "resizeWorld =
     \<lparr>typeFlag = ''audit'', jsonOutput = False, NArg = 0, stdoutIsTerm = True,
      connectErr = None, uiInitErr = None, closeErr = None,
      errAtEnd = None, errAfterClose = None,
      headerWidth0 = 0, headerAlignment0 = AlignLeft,
      termHeight0 = 24, rowsThatFit = (\<lambda>h. h - 1),
      auditFeed = [StreamEvent sampleAudit1, UiEvent resize, StreamEvent sampleAudit2,
        UiEvent resize],
      errorFeed = [StreamEvent ((9, 5, 7), \<lparr>Message = ''disk full''\<rparr>), UiEvent resize,
        StreamEvent ((9, 5, 8), \<lparr>Message = ''23/04/01 10:02:03 disk full on volume X''\<rparr>)],
      rawFeed = []\<rparr>"



section \<open>Durations\<close>

subsection \<open>Truncation on the integers\<close>

lemma smod_nonneg: "0 \<le> d \<Longrightarrow> 0 < m \<Longrightarrow> (d::int) smod m = d mod m"
  by (simp add: signed_modulo_int_def sgn_if)

lemma smod_neg: "d < 0 \<Longrightarrow> 0 < m \<Longrightarrow> (d::int) smod m = - ((- d) mod m)"
  by (simp add: signed_modulo_int_def sgn_if)

lemma trunc_nonneg: "0 \<le> d \<Longrightarrow> 0 < m \<Longrightarrow> trunc_toward_zero d m = m * (d div m)"
  by (cases "d = 0") (simp_all add: trunc_toward_zero_def sgn_if)

lemma trunc_neg: "d < 0 \<Longrightarrow> 0 < m \<Longrightarrow> trunc_toward_zero d m = - (m * ((- d) div m))"
  by (simp add: trunc_toward_zero_def sgn_if)

lemma minus_smod_eq_trunc:
  assumes "0 < m"
  shows "(d::int) - d smod m = trunc_toward_zero d m"
proof (cases "d < 0")
  case True
  have "(- d) - (- d) mod m = m * ((- d) div m)"
    by (simp add: minus_mod_eq_mult_div)
  with True assms show ?thesis
    by (simp add: smod_neg trunc_neg)
next
  case False
  have "d - d mod m = m * (d div m)"
    by (simp add: minus_mod_eq_mult_div)
  with False assms show ?thesis
    by (simp add: smod_nonneg trunc_nonneg)
qed

lemma trunc_remainder:
  assumes "0 < m"
  shows "\<bar>d - trunc_toward_zero d m\<bar> < m"
proof -
  have "\<bar>d smod m\<bar> < m"
  proof (cases "d < 0")
    case True
    with assms show ?thesis
      using pos_mod_bound [of m "- d"] pos_mod_sign [of m "- d"] by (simp add: smod_neg)
  next
    case False
    with assms show ?thesis
      using pos_mod_bound [of m d] pos_mod_sign [of m d] by (simp add: smod_nonneg)
  qed
  then show ?thesis
    using minus_smod_eq_trunc [OF assms, of d] by simp
qed

lemma trunc_dvd: "m dvd trunc_toward_zero d m"
  by (simp add: trunc_toward_zero_def)

lemma trunc_between:
  assumes "0 < m"
  shows "(0 \<le> d \<longrightarrow> 0 \<le> trunc_toward_zero d m \<and> trunc_toward_zero d m \<le> d)
       \<and> (d < 0 \<longrightarrow> d \<le> trunc_toward_zero d m \<and> trunc_toward_zero d m \<le> 0)"
proof (cases "d < 0")
  case True
  have "0 \<le> m * ((- d) div m)" using True assms by (simp add: pos_imp_zdiv_nonneg_iff)
  moreover have "m * ((- d) div m) \<le> - d"
    using assms mult_div_mod_eq [of m "- d"] pos_mod_sign [of m "- d"] by linarith
  ultimately show ?thesis using True assms by (simp add: trunc_neg)
next
  case False
  have "0 \<le> m * (d div m)" using False assms by (simp add: pos_imp_zdiv_nonneg_iff)
  moreover have "m * (d div m) \<le> d"
    using assms mult_div_mod_eq [of m d] pos_mod_sign [of m d] by linarith
  ultimately show ?thesis using False assms by (simp add: trunc_nonneg)
qed

lemma trunc_abs_le:
  assumes "0 < m"
  shows "\<bar>trunc_toward_zero d m\<bar> \<le> \<bar>d\<bar>"
  using trunc_between [OF assms, of d] by (cases "d < 0") auto

lemma trunc_same_sign:
  assumes "0 < m"
  shows "0 \<le> trunc_toward_zero d m * d"
  using trunc_between [OF assms, of d]
  by (cases "d < 0") (auto simp: mult_nonneg_nonneg mult_nonpos_nonpos)

lemma trunc_ge_multiple:
  assumes "0 < m" and "m * k \<le> d" and "0 \<le> k"
  shows "m * k \<le> trunc_toward_zero d m"
proof -
  have "0 \<le> d" using assms by (meson mult_nonneg_nonneg less_imp_le order_trans)
  have "k \<le> d div m" using assms
    by (metis mult.commute nonzero_mult_div_cancel_right less_irrefl zdiv_mono1)
  then have "m * k \<le> m * (d div m)" using assms by simp
  with \<open>0 \<le> d\<close> assms show ?thesis by (simp add: trunc_nonneg)
qed

lemma trunc_as_multiple:
  "trunc_toward_zero d m = m * (sgn d * (\<bar>d\<bar> div m))"
  by (simp add: trunc_toward_zero_def)

lemma trunc_of_multiple:
  assumes "0 < m"
  shows "trunc_toward_zero (m * k) m = m * k"
proof -
  have "\<bar>m * k\<bar> = m * \<bar>k\<bar>" using assms by (simp add: abs_mult)
  moreover have "sgn (m * k) = sgn k" using assms by (simp add: sgn_mult)
  moreover have "sgn k * \<bar>k\<bar> = k" by (simp add: sgn_if)
  ultimately show ?thesis using assms
    by (simp add: trunc_toward_zero_def mult.left_commute)
qed

lemma trunc_idem:
  assumes "0 < m"
  shows "trunc_toward_zero (trunc_toward_zero d m) m = trunc_toward_zero d m"
proof -
  obtain k where k: "trunc_toward_zero d m = m * k"
    using trunc_as_multiple [of d m] by blast
  show ?thesis unfolding k by (rule trunc_of_multiple [OF assms])
qed

lemma spec_resolution_pos: "0 < spec_resolution ns"
  by (simp add: spec_resolution_def)

lemma spec_resolution_trunc:
  "spec_resolution (trunc_toward_zero ns (spec_resolution ns)) = spec_resolution ns"
proof -
  consider (s) "1000000000 \<le> ns" | (ms) "1000000 \<le> ns" "ns < 1000000000" | (us) "ns < 1000000"
    by linarith
  then show ?thesis
  proof cases
    case s
    have "10000000 * 100 \<le> trunc_toward_zero ns 10000000"
      by (rule trunc_ge_multiple) (use s in simp_all)
    with s show ?thesis by (simp add: spec_resolution_def)
  next
    case ms
    have "10000 * 100 \<le> trunc_toward_zero ns 10000"
      by (rule trunc_ge_multiple) (use ms in simp_all)
    moreover have "trunc_toward_zero ns 10000 \<le> ns"
      using trunc_between [of 10000 ns] ms by simp
    ultimately show ?thesis using ms by (simp add: spec_resolution_def)
  next
    case us
    have "trunc_toward_zero ns 1000 < 1000000"
      using trunc_between [of 1000 ns] us by (cases "ns < 0") auto
    with us show ?thesis by (simp add: spec_resolution_def)
  qed
qed

subsection \<open>Truncation on 64-bit durations\<close>

lemmas unit_defs = Second_def Millisecond_def Microsecond_def Nanosecond_def

text \<open>
  \<^verbatim>\<open>d - d%m\<close> never leaves the range of \<^verbatim>\<open>int64\<close>: the result lies between \<open>d\<close> and zero.
\<close>

lemma sint_Truncate:
  assumes "0 < sint m"
  shows "sint (Truncate d m) = trunc_toward_zero (sint d) (sint m)"
proof -
  let ?t = "trunc_toward_zero (sint d) (sint m)"
  have lo: "- (2 ^ 63) \<le> sint d" using sint_ge [of d] by simp
  have hi: "sint d < 2 ^ 63" using sint_lt [of d] by simp
  have rng: "- (2 ^ 63) \<le> ?t \<and> ?t < 2 ^ 63"
    using trunc_between [OF assms, of "sint d"] lo hi by (cases "sint d < 0") auto
  have "\<not> m \<le>s 0" using assms by (simp add: word_sle_eq)
  then have "Truncate d m = d - word_of_int (sint d smod sint m)"
    by (simp add: Truncate_def rem64_def)
  also have "\<dots> = word_of_int (sint d - sint d smod sint m)"
    by simp
  also have "\<dots> = word_of_int ?t"
    by (simp add: minus_smod_eq_trunc [OF assms])
  finally have "sint (Truncate d m) = signed_take_bit 63 ?t"
    by (simp add: sint_sbintrunc')
  then show ?thesis using rng by (simp add: signed_take_bit_int_eq_self)
qed

lemma sint_respUnit: "sint (respUnit d) = spec_resolution (sint d)"
  by (simp add: respUnit_def spec_resolution_def unit_defs word_sle_eq)

lemma respUnit_pos: "0 < sint (respUnit d)"
  by (simp add: sint_respUnit spec_resolution_def)

lemma respDuration_Truncate: "respDuration d = Truncate d (respUnit d)"
  by (simp add: respDuration_def respUnit_def)

lemma respTimeText_respDuration: "respTimeText lib d = DurationString lib (respDuration d)"
  by (simp add: respTimeText_def respDuration_def)

lemma sint_respDuration:
  "sint (respDuration d) = trunc_toward_zero (sint d) (spec_resolution (sint d))"
  using sint_Truncate [OF respUnit_pos, of d d]
  by (simp add: respDuration_Truncate sint_respUnit)

lemma respUnit_respDuration: "respUnit (respDuration d) = respUnit d"
proof -
  have "sint (respUnit (respDuration d)) = sint (respUnit d)"
    by (simp add: sint_respUnit sint_respDuration spec_resolution_trunc)
  then show ?thesis by (rule signed_word_eqI)
qed

lemma respDuration_idem: "respDuration (respDuration d) = respDuration d"
proof -
  have "sint (respDuration (respDuration d)) = sint (respDuration d)"
    using trunc_idem [OF spec_resolution_pos, of "sint d" "sint d"]
    by (simp add: sint_respDuration spec_resolution_trunc)
  then show ?thesis by (rule signed_word_eqI)
qed

text \<open>
  The scenario of the specification: a response time of 1,234 ms is shown as 1.23 s.
\<close>

lemma respDuration_1234ms: "respDuration 1234000000 = 1230000000"
  by (simp add: respDuration_def Truncate_def rem64_def unit_defs word_sle_eq
      signed_modulo_int_def)

lemma auditRow_respTime:
  "auditRow lib event ! 4 = NewCell (respTimeText lib (Response_Time event))"
  by (simp add: auditRow_def Let_def)

lemma respDuration_word_of_int:
  "respDuration d = word_of_int (trunc_toward_zero (sint d) (spec_resolution (sint d)))"
proof -
  have "respDuration d = word_of_int (sint (respDuration d))" by simp
  then show ?thesis by (simp only: sint_respDuration)
qed

text \<open>
  Claim C5. For every response duration \<open>d\<close> the duration cell, the fifth cell of the
  audit row, shows \<open>d\<close> truncated toward zero: its text is the rendering of the multiple of
  the resolution next to \<open>d\<close> on the side of zero, where the resolution is 10 milliseconds
  when \<open>d\<close> is at least one second, 10 microseconds when \<open>d\<close> is at least one millisecond
  and below one second, and one microsecond when \<open>d\<close> is below one millisecond. The
  rendered duration is a multiple of the resolution, is not larger than \<open>d\<close> in magnitude,
  differs from \<open>d\<close> by less than the resolution and has the sign of \<open>d\<close>.
\<close>

theorem respTime_truncates_toward_zero:
  "auditRow lib event ! 4 = NewCell (respTimeText lib (Response_Time event))
   \<and> Text (auditRow lib event ! 4) =
       DurationString lib (word_of_int (trunc_toward_zero (sint (Response_Time event))
         (spec_resolution (sint (Response_Time event)))))
   \<and> respTimeText lib d = DurationString lib (respDuration d)
   \<and> sint (respDuration d) = trunc_toward_zero (sint d) (spec_resolution (sint d))
   \<and> spec_resolution (sint d) dvd sint (respDuration d)
   \<and> \<bar>sint (respDuration d)\<bar> \<le> \<bar>sint d\<bar>
   \<and> \<bar>sint d - sint (respDuration d)\<bar> < spec_resolution (sint d)
   \<and> 0 \<le> sint (respDuration d) * sint d"
proof -
  have "Text (auditRow lib event ! 4) =
       DurationString lib (word_of_int (trunc_toward_zero (sint (Response_Time event))
         (spec_resolution (sint (Response_Time event)))))"
    using respDuration_word_of_int [of "Response_Time event"]
    by (simp add: auditRow_respTime NewCell_def respTimeText_respDuration)
  then show ?thesis
    using trunc_abs_le [OF spec_resolution_pos, of "sint d" "sint d"]
      trunc_remainder [OF spec_resolution_pos, of "sint d" "sint d"]
      trunc_same_sign [OF spec_resolution_pos, of "sint d" "sint d"]
    by (simp add: auditRow_respTime respTimeText_respDuration sint_respDuration trunc_dvd)
qed

text \<open>
  Claim C8. Formatting a duration is idempotent: for every duration \<open>d\<close>, the truncated
  duration falls into the same branch as \<open>d\<close> (the same unit is chosen for it), truncating
  it again gives the same duration, and so its text is the text of \<open>d\<close>.
\<close>

theorem respTime_idempotent:
  "respUnit (respDuration d) = respUnit d
   \<and> respDuration (respDuration d) = respDuration d
   \<and> respTimeText lib (respDuration d) = respTimeText lib d"
  by (simp add: respTimeText_respDuration respUnit_respDuration respDuration_idem)

section \<open>The rows of the audit log\<close>

lemma auditRow_status: "auditRow lib event ! 2 = statusCell lib (Response_StatusCode event)"
  by (simp add: auditRow_def Let_def)

text \<open>
  Claim C6. For every response status code \<open>c\<close>, the status cell of the audit row has the
  colour green if and only if \<open>c\<close> is 200, and the colour red otherwise. The status cell is
  the third cell of the row.
\<close>

theorem status_color:
  "auditRow lib event ! 2 = statusCell lib (Response_StatusCode event)
   \<and> Color (statusCell lib c) = Some (if c = 200 then FgGreen else FgRed)
   \<and> (Color (statusCell lib c) = Some FgGreen) = (c = 200)
   \<and> (Color (statusCell lib c) = Some FgRed) = (c \<noteq> 200)"
  by (simp add: auditRow_status statusCell_def StatusOK_def Let_def)

section \<open>The rows of the error log\<close>

subsection \<open>Splitting and replacing\<close>

lemma takeWhile_sep: "sep \<notin> set a \<Longrightarrow> takeWhile (\<lambda>c. c \<noteq> sep) (a @ sep # b) = a"
  by (induction a) auto

lemma dropWhile_sep: "sep \<notin> set a \<Longrightarrow> dropWhile (\<lambda>c. c \<noteq> sep) (a @ sep # b) = sep # b"
  by (induction a) auto

lemma SplitN_3_decomposed:
  assumes "sep \<notin> set a" and "sep \<notin> set b"
  shows "SplitN (a @ sep # b @ sep # c) sep 3 = [a, b, c]"
  using assms by (simp add: numeral_3_eq_3 takeWhile_sep dropWhile_sep)

lemma count_list_takeWhile_dropWhile:
  "count_list s sep = count_list (dropWhile (\<lambda>c. c \<noteq> sep) s) sep"
  by (induction s) auto

lemma count_list_pos_iff: "0 < count_list s sep \<longleftrightarrow> sep \<in> set s"
  by (induction s) auto

lemma count_list_tl_dropWhile:
  "sep \<in> set s \<Longrightarrow> count_list s sep = Suc (count_list (tl (dropWhile (\<lambda>c. c \<noteq> sep) s)) sep)"
  by (induction s) auto

lemma SplitN_3_length:
  "length (SplitN s sep 3) = (if 2 \<le> count_list s sep then 3 else if sep \<in> set s then 2 else 1)"
proof (cases "sep \<in> set s")
  case False
  then have "count_list s sep = 0" using count_list_pos_iff [of s sep] by simp
  with False show ?thesis by (simp add: numeral_3_eq_3)
next
  case True
  let ?r = "tl (dropWhile (\<lambda>c. c \<noteq> sep) s)"
  have c: "count_list s sep = Suc (count_list ?r sep)"
    by (rule count_list_tl_dropWhile [OF True])
  show ?thesis
  proof (cases "sep \<in> set ?r")
    case True
    then have "0 < count_list ?r sep" by (simp add: count_list_pos_iff)
    with c \<open>sep \<in> set s\<close> True show ?thesis by (simp add: numeral_3_eq_3)
  next
    case False
    then have "count_list ?r sep = 0" using count_list_pos_iff [of ?r sep] by simp
    with c \<open>sep \<in> set s\<close> False show ?thesis by (simp add: numeral_3_eq_3)
  qed
qed

lemma SplitN_3_length_le: "length (SplitN s sep 3) \<le> 3"
  by (simp add: SplitN_3_length)

lemma ReplaceAll_no_old: "old \<noteq> new \<Longrightarrow> old \<notin> set (ReplaceAll s old new)"
  by (auto simp: ReplaceAll_def)

lemma ReplaceAll_length: "length (ReplaceAll s old new) = length s"
  by (simp add: ReplaceAll_def)

lemma ReplaceAll_nth:
  "i < length s \<Longrightarrow> ReplaceAll s old new ! i = (if s ! i = old then new else s ! i)"
  by (simp add: ReplaceAll_def)

lemma newline_neq_space: "newline \<noteq> space"
  by (simp add: newline_def space_def)

lemma errorRow_length: "length (errorRow now event) = 2"
  by (simp add: errorRow_def Let_def)

lemma errorRow_no_newline: "newline \<notin> set (Text (errorRow now event ! 1))"
  by (simp add: errorRow_def Let_def NewCell_def ReplaceAll_no_old newline_neq_space)

lemma errorRow_three:
  assumes "Message event = date @ space # time @ space # msg"
    and "space \<notin> set date" and "space \<notin> set time"
  shows "errorRow now event = [NewCell time, NewCell (ReplaceAll msg newline space)]"
  using assms by (simp add: errorRow_def Let_def SplitN_3_decomposed)

lemma errorRow_fallback:
  assumes "count_list (Message event) space < 2"
  shows "errorRow now event =
    [NewCell (clockText now), NewCell (ReplaceAll (Message event) newline space)]"
  using assms by (simp add: errorRow_def Let_def SplitN_3_length)

lemma decomposition_exists:
  assumes "2 \<le> count_list s sep"
  shows "\<exists>a b c. s = a @ sep # b @ sep # c \<and> sep \<notin> set a \<and> sep \<notin> set b"
proof -
  have in1: "sep \<in> set s" using assms count_list_pos_iff [of s sep] by simp
  let ?a = "takeWhile (\<lambda>c. c \<noteq> sep) s"
  let ?r = "tl (dropWhile (\<lambda>c. c \<noteq> sep) s)"
  have "dropWhile (\<lambda>c. c \<noteq> sep) s \<noteq> []" using in1 by (simp add: dropWhile_eq_Nil_conv)
  moreover have "hd (dropWhile (\<lambda>c. c \<noteq> sep) s) = sep"
    using in1 hd_dropWhile [of "\<lambda>c. c \<noteq> sep" s] calculation by auto
  ultimately have d1: "dropWhile (\<lambda>c. c \<noteq> sep) s = sep # ?r"
    by (metis list.collapse)
  have s1: "s = ?a @ sep # ?r"
    using takeWhile_dropWhile_id [of "\<lambda>c. c \<noteq> sep" s] d1 by simp
  have "count_list s sep = Suc (count_list ?r sep)" by (rule count_list_tl_dropWhile [OF in1])
  then have in2: "sep \<in> set ?r" using assms count_list_pos_iff [of ?r sep] by simp
  let ?b = "takeWhile (\<lambda>c. c \<noteq> sep) ?r"
  let ?c = "tl (dropWhile (\<lambda>c. c \<noteq> sep) ?r)"
  have "dropWhile (\<lambda>c. c \<noteq> sep) ?r \<noteq> []" using in2 by (simp add: dropWhile_eq_Nil_conv)
  moreover have "hd (dropWhile (\<lambda>c. c \<noteq> sep) ?r) = sep"
    using in2 hd_dropWhile [of "\<lambda>c. c \<noteq> sep" ?r] calculation by auto
  ultimately have d2: "dropWhile (\<lambda>c. c \<noteq> sep) ?r = sep # ?c"
    by (metis list.collapse)
  have s2: "?r = ?b @ sep # ?c"
    using takeWhile_dropWhile_id [of "\<lambda>c. c \<noteq> sep" ?r] d2 by simp
  have na: "sep \<notin> set ?a" by (auto dest: set_takeWhileD)
  have nb: "sep \<notin> set ?b" by (auto dest: set_takeWhileD)
  from s1 s2 have "s = ?a @ sep # ?b @ sep # ?c" by simp
  with na nb show ?thesis by blast
qed

lemma digit_chars_below_10:
  "list_all (\<lambda>n. digit_char n = decimalDigit (int n)) [0..<10]"
  by code_simp

lemma digit_char_decimalDigit:
  assumes "n < 10"
  shows "digit_char n = decimalDigit (int n)"
proof -
  have "\<forall>k \<in> set [0..<10]. digit_char k = decimalDigit (int k)"
    using digit_chars_below_10 by (simp only: list_all_iff)
  moreover have "n \<in> set [0..<10]" using assms by simp
  ultimately show ?thesis by blast
qed

lemma fmt_02d_twoDigits:
  assumes "0 \<le> i" and "i < 100"
  shows "fmt_02d i = twoDigits i"
proof (cases "i < 10")
  case True
  then have "nat i < 10" using assms by simp
  then have "digits (nat i) = [digit_char (nat i)]" by (simp add: digits.simps)
  moreover have "digit_char (nat i) = decimalDigit i"
    using digit_char_decimalDigit [OF \<open>nat i < 10\<close>] assms by simp
  moreover have "i div 10 = 0" "i mod 10 = i" using True assms by simp_all
  moreover have "decimalDigit 0 = CHR ''0''" by (simp add: decimalDigit_def)
  ultimately show ?thesis using True assms by (simp add: fmt_02d_def twoDigits_def)
next
  case False
  let ?n = "nat i"
  have n: "\<not> ?n < 10" "?n div 10 < 10" "?n mod 10 < 10" using False assms by simp_all
  have "digits ?n = digits (?n div 10) @ [digit_char (?n mod 10)]"
    using n(1) by (subst digits.simps) simp
  also have "digits (?n div 10) = [digit_char (?n div 10)]"
    using n(2) by (subst digits.simps) simp
  finally have "digits ?n = [digit_char (?n div 10), digit_char (?n mod 10)]" by simp
  moreover have "digit_char (?n div 10) = decimalDigit (i div 10)"
    using digit_char_decimalDigit [OF n(2)] assms by (simp add: zdiv_int)
  moreover have "digit_char (?n mod 10) = decimalDigit (i mod 10)"
    using digit_char_decimalDigit [OF n(3)] assms by (simp add: zmod_int)
  ultimately show ?thesis using False assms by (simp add: fmt_02d_def twoDigits_def)
qed

lemma clockText_spec: "validClock now \<Longrightarrow> clockText now = spec_HHMMSS now"
  by (cases now) (simp add: validClock_def clockText_def spec_HHMMSS_def fmt_02d_twoDigits)

lemma newlinesToSpaces_ReplaceAll: "newlinesToSpaces s (ReplaceAll s newline space)"
  by (simp add: newlinesToSpaces_def ReplaceAll_def newline_def space_def list_all2_map2
      list_all2_same)


lemma errorRow_texts_three:
  assumes "Message event = date @ CHR '' '' # time @ CHR '' '' # msg"
    and "CHR '' '' \<notin> set date" and "CHR '' '' \<notin> set time"
  shows "SplitN (Message event) (CHR '' '') 3 = [date, time, msg]"
    and "Text (errorRow now event ! 0) = time"
    and "newlinesToSpaces msg (Text (errorRow now event ! 1))"
proof -
  have m: "Message event = date @ space # time @ space # msg" "space \<notin> set date"
    "space \<notin> set time"
    using assms by (simp_all add: space_def)
  show "SplitN (Message event) (CHR '' '') 3 = [date, time, msg]"
    using assms by (simp add: SplitN_3_decomposed)
  have r: "errorRow now event = [NewCell time, NewCell (ReplaceAll msg newline space)]"
    by (rule errorRow_three [OF m])
  show "Text (errorRow now event ! 0) = time" by (simp add: r NewCell_def)
  show "newlinesToSpaces msg (Text (errorRow now event ! 1))"
    by (simp add: r NewCell_def newlinesToSpaces_ReplaceAll)
qed

lemma errorRow_texts_fallback:
  assumes "count_list (Message event) (CHR '' '') < 2"
  shows "length (SplitN (Message event) (CHR '' '') 3) < 3"
    and "newlinesToSpaces (Message event) (Text (errorRow now event ! 1))"
    and "validClock now \<longrightarrow> Text (errorRow now event ! 0) = spec_HHMMSS now"
proof -
  have c: "count_list (Message event) space < 2" using assms by (simp add: space_def)
  show "length (SplitN (Message event) (CHR '' '') 3) < 3"
    using assms by (simp add: SplitN_3_length)
  have r: "errorRow now event =
      [NewCell (clockText now), NewCell (ReplaceAll (Message event) newline space)]"
    by (rule errorRow_fallback [OF c])
  show "newlinesToSpaces (Message event) (Text (errorRow now event ! 1))"
    by (simp add: r NewCell_def newlinesToSpaces_ReplaceAll)
  show "validClock now \<longrightarrow> Text (errorRow now event ! 0) = spec_HHMMSS now"
    by (simp add: r NewCell_def clockText_spec)
qed

lemma errorRow_colors:
  "Color (errorRow now event ! 0) = None" "Color (errorRow now event ! 1) = None"
  by (simp_all add: errorRow_def Let_def NewCell_def)

lemma newlinesToSpaces_two_lines:
  "newlinesToSpaces [CHR ''a'', CHR 0x0A, CHR ''b''] t = (t = ''a b'')"
  by (auto simp: newlinesToSpaces_def list_all2_Cons1)

text \<open>
  Claim C4. For every raw message the row of an error event has two cells, both without
  a colour, and building it never reads a segment that is not there. Splitting the message
  at its first two spaces (limit 3) gives three segments exactly when the message has at
  least two spaces, that is, when it is a date, a space, a time, a space and a text, with
  no space in the date and in the time. Then the segments are the date, the time and the
  text, the time cell is the time and the message cell is the text with every line break
  replaced by a single space. Otherwise the split gives fewer than three segments, the
  message cell is the whole message with every line break replaced by a single space and
  the time cell is the clock reading as \<^verbatim>\<open>HH:MM:SS\<close>, two decimal digits each.
\<close>

theorem errorRow_two_cells:
  "length (errorRow now event) = 2
   \<and> Color (errorRow now event ! 0) = None \<and> Color (errorRow now event ! 1) = None
   \<and> (length (SplitN (Message event) (CHR '' '') 3) = 3)
       = (2 \<le> count_list (Message event) (CHR '' ''))
   \<and> (2 \<le> count_list (Message event) (CHR '' '') \<longrightarrow>
        (\<exists>d t m. Message event = d @ CHR '' '' # t @ CHR '' '' # m
           \<and> CHR '' '' \<notin> set d \<and> CHR '' '' \<notin> set t))
   \<and> (Message event = date @ CHR '' '' # time @ CHR '' '' # msg
        \<and> CHR '' '' \<notin> set date \<and> CHR '' '' \<notin> set time \<longrightarrow>
        SplitN (Message event) (CHR '' '') 3 = [date, time, msg]
        \<and> Text (errorRow now event ! 0) = time
        \<and> newlinesToSpaces msg (Text (errorRow now event ! 1)))
   \<and> (count_list (Message event) (CHR '' '') < 2 \<longrightarrow>
        length (SplitN (Message event) (CHR '' '') 3) < 3
        \<and> newlinesToSpaces (Message event) (Text (errorRow now event ! 1))
        \<and> (validClock now \<longrightarrow> Text (errorRow now event ! 0) = spec_HHMMSS now))"
proof -
  have a: "(length (SplitN (Message event) (CHR '' '') 3) = 3)
       = (2 \<le> count_list (Message event) (CHR '' ''))"
    by (simp add: SplitN_3_length)
  have b: "2 \<le> count_list (Message event) (CHR '' '') \<longrightarrow>
        (\<exists>d t m. Message event = d @ CHR '' '' # t @ CHR '' '' # m
           \<and> CHR '' '' \<notin> set d \<and> CHR '' '' \<notin> set t)"
    using decomposition_exists [of "Message event" "CHR '' ''"] by blast
  have c: "Message event = date @ CHR '' '' # time @ CHR '' '' # msg
        \<and> CHR '' '' \<notin> set date \<and> CHR '' '' \<notin> set time \<longrightarrow>
        SplitN (Message event) (CHR '' '') 3 = [date, time, msg]
        \<and> Text (errorRow now event ! 0) = time
        \<and> newlinesToSpaces msg (Text (errorRow now event ! 1))"
    using errorRow_texts_three by blast
  have d: "count_list (Message event) (CHR '' '') < 2 \<longrightarrow>
        length (SplitN (Message event) (CHR '' '') 3) < 3
        \<and> newlinesToSpaces (Message event) (Text (errorRow now event ! 1))
        \<and> (validClock now \<longrightarrow> Text (errorRow now event ! 0) = spec_HHMMSS now)"
    using errorRow_texts_fallback by blast
  show ?thesis
    using errorRow_length [of now event] errorRow_colors [of now event] a b c d by blast
qed

theorem errorRow_two_cells_witness:
  "Text (errorRow (9, 5, 7) \<lparr>Message = ''23/04/01 10:02:03 '' @ [CHR ''a'', CHR 0x0A, CHR ''b'']\<rparr> ! 0)
     = ''10:02:03''
   \<and> Text (errorRow (9, 5, 7) \<lparr>Message = ''23/04/01 10:02:03 '' @ [CHR ''a'', CHR 0x0A, CHR ''b'']\<rparr> ! 1)
     = ''a b''
   \<and> Text (errorRow (9, 5, 7) \<lparr>Message = [CHR ''a'', CHR 0x0A, CHR ''b'']\<rparr> ! 0) = ''09:05:07''
   \<and> Text (errorRow (9, 5, 7) \<lparr>Message = [CHR ''a'', CHR 0x0A, CHR ''b'']\<rparr> ! 1) = ''a b''"
proof -
  have v: "validClock (9, 5, 7)" by (simp add: validClock_def)
  have h: "spec_HHMMSS (9, 5, 7) = ''09:05:07''"
    by (simp add: spec_HHMMSS_def twoDigits_def decimalDigit_def)
  show ?thesis
    using errorRow_two_cells [of "(9, 5, 7)"
        "\<lparr>Message = ''23/04/01 10:02:03 '' @ [CHR ''a'', CHR 0x0A, CHR ''b'']\<rparr>"
        "''23/04/01''" "''10:02:03''" "[CHR ''a'', CHR 0x0A, CHR ''b'']"]
      errorRow_two_cells [of "(9, 5, 7)" "\<lparr>Message = [CHR ''a'', CHR 0x0A, CHR ''b'']\<rparr>"]
      v h
    by (simp add: newlinesToSpaces_two_lines)
qed

section \<open>The headers of the tables\<close>

lemma headers_audit: "map Width (Headers (auditTable w0 a0)) = [12/100, 15/100, 15/100, 45/100, 12/100]"
  by (simp add: auditTable_def NewTable_def setWidth_def setAlignment_def)

lemma headers_error: "map Width (Headers (errorTable w0 a0)) = [12/100, 87/100]"
  by (simp add: errorTable_def NewTable_def setWidth_def setAlignment_def)

text \<open>
  Claim C9. The fractional widths that the file installs before the first draw add up to
  at most 1, for the five columns of the audit table and for the two columns of the error
  table, whatever width a new header starts with: both sums are 0.99.
\<close>

theorem header_widths_at_most_one:
  "sum_list (map Width (Headers (auditTable w0 a0))) = 99 / 100
   \<and> sum_list (map Width (Headers (errorTable w0 a0))) = 99 / 100
   \<and> sum_list (map Width (Headers (auditTable w0 a0))) \<le> 1
   \<and> sum_list (map Width (Headers (errorTable w0 a0))) \<le> 1"
  by (simp add: headers_audit headers_error)

section \<open>The session with the terminal UI\<close>

subsection \<open>The buffered rows\<close>

lemma Rows_draw:
  "Rows (table (draw fit g st)) =
     drop (length (Rows (table st)) - capacity fit (termHeight st)) (Rows (table st))"
  by (simp add: draw_def Draw_def scrollOff_def Let_def)

lemma Headers_draw: "Headers (table (draw fit g st)) = Headers (table st)"
  by (simp add: draw_def Draw_def scrollOff_def Let_def)


lemma closed_draw: "closed (draw fit g st) = closed st"
  by (simp add: draw_def Let_def)

lemma trace_draw:
  "trace (draw fit g st) = trace st @ [(g, TableDraw (Rows (table (draw fit g st))))]"
  by (simp add: draw_def Let_def)


lemma addRow_fields:
  "termHeight (addRow cells st) = termHeight st" "trace (addRow cells st) = trace st"
  "closed (addRow cells st) = closed st"
  by (simp_all add: addRow_def)

lemma resizeTerminal_fields:
  "table (resizeTerminal event st) = table st" "trace (resizeTerminal event st) = trace st"
  "closed (resizeTerminal event st) = closed st"
  by (simp_all add: resizeTerminal_def split: option.splits)


lemma closeStream_fields:
  "table (closeStream prefix cerr st) = table st"
  "termHeight (closeStream prefix cerr st) = termHeight st"
  "closed (closeStream prefix cerr st) = True"
  by (simp_all add: closeStream_def)

lemma Rows_auditTable: "Rows (auditTable w0 a0) = []"
  by (simp add: auditTable_def NewTable_def setWidth_def setAlignment_def)





















lemma resizeWorld_fields:
  "termHeight0 resizeWorld = 24" "rowsThatFit resizeWorld = (\<lambda>h. h - 1)"
  "closeErr resizeWorld = None" "headerWidth0 resizeWorld = 0"
  "headerAlignment0 resizeWorld = AlignLeft"
  "auditFeed resizeWorld = [StreamEvent sampleAudit1, UiEvent resize, StreamEvent sampleAudit2,
        UiEvent resize]"
  "errorFeed resizeWorld = [StreamEvent ((9, 5, 7), \<lparr>Message = ''disk full''\<rparr>), UiEvent resize,
        StreamEvent ((9, 5, 8), \<lparr>Message = ''23/04/01 10:02:03 disk full on volume X''\<rparr>)]"
  by (simp_all add: resizeWorld_def)




subsection \<open>The goroutines that draw\<close>

lemma drawsBy_append: "drawsBy g (xs @ ys) = drawsBy g xs + drawsBy g ys"
  by (simp add: drawsBy_def)

lemma drawsBy_draw:
  "drawsBy g (trace (draw fit g' st)) = drawsBy g (trace st) + (if g = g' then 1 else 0)"
  by (simp add: draw_def Let_def drawsBy_def)

lemma drawsBy_closeStream: "drawsBy g (trace (closeStream prefix cerr st)) = drawsBy g (trace st)"
  by (simp add: closeStream_def drawsBy_def split: option.splits)

lemma uiLoop_drawsBy_Listener:
  "drawsBy Listener (trace (uiLoop fit row prefix cerr st occs)) =
     drawsBy Listener (trace st) + length (filter isResize (handled occs))"
  by (induction fit row prefix cerr st occs rule: uiLoop.induct)
     (simp_all add: drawsBy_draw drawsBy_closeStream addRow_fields resizeTerminal_fields)

lemma uiLoop_drawsBy_Consumer:
  "drawsBy Consumer (trace (uiLoop fit row prefix cerr st occs)) =
     drawsBy Consumer (trace st) + length (dataEvents (handled occs))"
  by (induction fit row prefix cerr st occs rule: uiLoop.induct)
     (simp_all add: drawsBy_draw drawsBy_closeStream addRow_fields resizeTerminal_fields)

lemma uiLoop_duty:
  "list_all byConsumerOrListenerDuty (trace st) \<Longrightarrow>
   list_all byConsumerOrListenerDuty (trace (uiLoop fit row prefix cerr st occs))"
  by (induction fit row prefix cerr st occs rule: uiLoop.induct)
     (simp_all add: trace_draw addRow_fields resizeTerminal_fields closeStream_def
        byConsumerOrListenerDuty_def split: option.splits)

lemma ui_event_adds_no_row:
  "length (Rows (table (uiLoop fit row prefix cerr st [UiEvent event]))) \<le> length (Rows (table st))"
  by (simp add: Rows_draw resizeTerminal_fields closeStream_fields)

lemma auditSession_draws:
  "drawsBy Consumer (trace (auditSession lib w)) = 1 + length (dataEvents (handled (auditFeed w)))"
  "drawsBy Listener (trace (auditSession lib w)) = length (filter isResize (handled (auditFeed w)))"
  by (simp_all add: auditSession_def uiLoop_drawsBy_Consumer uiLoop_drawsBy_Listener drawsBy_draw)
     (simp_all add: drawsBy_def)

lemma errorSession_draws:
  "drawsBy Consumer (trace (errorSession w)) = 1 + length (dataEvents (handled (errorFeed w)))"
  "drawsBy Listener (trace (errorSession w)) = length (filter isResize (handled (errorFeed w)))"
  by (simp_all add: errorSession_def uiLoop_drawsBy_Consumer uiLoop_drawsBy_Listener drawsBy_draw)
     (simp_all add: drawsBy_def)

lemma auditSession_duty: "list_all byConsumerOrListenerDuty (trace (auditSession lib w))"
  unfolding auditSession_def
  by (rule uiLoop_duty) (simp add: trace_draw byConsumerOrListenerDuty_def)

lemma errorSession_duty: "list_all byConsumerOrListenerDuty (trace (errorSession w))"
  unfolding errorSession_def
  by (rule uiLoop_duty) (simp add: trace_draw byConsumerOrListenerDuty_def)

text \<open>
  Claim C2, as stated, does not hold: terminal paints are not serialized through a
  single owner. In the session \<open>resizeWorld\<close> the consumer calls \<^verbatim>\<open>table.Draw()\<close> three
  times (line 178 and line 208 for each of the two events) and the listener goroutine
  calls it twice (line 164 for each of the two resize events).
\<close>

theorem single_painter_counterexample:
  "drawsBy Consumer (trace (auditSession sampleLib resizeWorld)) = 3
   \<and> drawsBy Listener (trace (auditSession sampleLib resizeWorld)) = 2
   \<and> \<not> singlePainter (trace (auditSession sampleLib resizeWorld))"
  by (simp add: auditSession_draws singlePainter_def resizeWorld_fields resize_def)

text \<open>
  Claim C2, amended. \<^verbatim>\<open>table.Draw()\<close> is called by two goroutines, with no hand-off
  between them: the consumer draws once before its loop and once after every row it
  appends, and the listener draws once for every resize event it handles, so all paints
  come from one goroutine only in the sessions without a resize event. Whatever the
  listener does is a draw or the closing of the stream with its error line: it appends
  no row, and handling a terminal event never makes the buffered rows more.
\<close>

theorem draws_by_consumer_and_listener:
  "drawsBy Consumer (trace (auditSession lib w)) = 1 + length (dataEvents (handled (auditFeed w)))
   \<and> drawsBy Listener (trace (auditSession lib w)) = length (filter isResize (handled (auditFeed w)))
   \<and> singlePainter (trace (auditSession lib w)) = (filter isResize (handled (auditFeed w)) = [])
   \<and> list_all byConsumerOrListenerDuty (trace (auditSession lib w))
   \<and> drawsBy Consumer (trace (errorSession w)) = 1 + length (dataEvents (handled (errorFeed w)))
   \<and> drawsBy Listener (trace (errorSession w)) = length (filter isResize (handled (errorFeed w)))
   \<and> singlePainter (trace (errorSession w)) = (filter isResize (handled (errorFeed w)) = [])
   \<and> list_all byConsumerOrListenerDuty (trace (errorSession w))
   \<and> length (Rows (table (uiLoop fit row prefix cerr st [UiEvent event])))
       \<le> length (Rows (table st))"
  by (simp add: auditSession_draws errorSession_draws auditSession_duty errorSession_duty
      ui_event_adds_no_row singlePainter_def del: uiLoop.simps)

section \<open>The command\<close>

subsection \<open>Concrete sessions evaluated\<close>

lemma asciiLowerChar_idem: "asciiLowerChar (asciiLowerChar c) = asciiLowerChar c"
  by (simp add: asciiLowerChar_def)

lemma asciiToLower_idem: "asciiToLower (asciiToLower s) = asciiToLower s"
  by (simp add: asciiToLower_def asciiLowerChar_idem)

lemma asciiLowerChar_ascii:
  "(of_char c :: nat) < 128 \<Longrightarrow> (of_char (asciiLowerChar c) :: nat) < 128"
  by (simp add: asciiLowerChar_def)

lemma isASCII_asciiToLower: "isASCII s \<Longrightarrow> isASCII (asciiToLower s)"
  by (induction s) (simp_all add: isASCII_def asciiToLower_def asciiLowerChar_ascii)

lemma ToLower_ascii: "isASCII s \<Longrightarrow> ToLower lib s = asciiToLower s"
  by (simp add: ToLower_def)

lemma ToLower_idem_ascii: "isASCII s \<Longrightarrow> ToLower lib (ToLower lib s) = ToLower lib s"
  by (simp add: ToLower_ascii isASCII_asciiToLower asciiToLower_idem)

lemma of_char_asciiLowerChar:
  "(of_char (asciiLowerChar a) :: nat) =
     (if (of_char (CHR ''A'') :: nat) \<le> of_char a \<and> (of_char a :: nat) \<le> of_char (CHR ''Z'')
      then of_char a + (of_char (CHR ''a'') - of_char (CHR ''A'')) else of_char a)"
  by (simp add: asciiLowerChar_def)

lemma lowerCaseOf_asciiToLower: "lowerCaseOf s (asciiToLower s)"
  unfolding lowerCaseOf_def asciiToLower_def
  by (simp only: list_all2_map2 list_all2_same of_char_asciiLowerChar) simp

lemma asciiToLower_AUDIT: "asciiToLower ''AUDIT'' = ''audit''"
  by code_simp

lemma asciiToLower_ERROR: "asciiToLower ''Error'' = ''error''"
  by code_simp

lemma asciiToLower_audit: "asciiToLower ''audit'' = ''audit''"
  by (simp add: asciiToLower_def asciiLowerChar_def)

lemma asciiToLower_error: "asciiToLower ''error'' = ''error''"
  by (simp add: asciiToLower_def asciiLowerChar_def)

lemma asciiToLower_Syslog: "asciiToLower ''Syslog'' = ''syslog''"
  by code_simp

lemma isASCII_samples:
  "isASCII ''AUDIT''" "isASCII ''audit''" "isASCII ''Error''" "isASCII ''error''"
  "isASCII ''Syslog''"
  by (simp_all add: isASCII_def)

lemma ToLower_samples:
  "ToLower lib ''AUDIT'' = ''audit''" "ToLower lib ''audit'' = ''audit''"
  "ToLower lib ''Error'' = ''error''" "ToLower lib ''error'' = ''error''"
  "ToLower lib ''Syslog'' = ''syslog''"
  by (simp_all add: ToLower_ascii isASCII_samples asciiToLower_AUDIT asciiToLower_audit
      asciiToLower_ERROR asciiToLower_error asciiToLower_Syslog)

lemma traceMode_sample_audit: "traceMode sampleLib ''audit'' = AuditMode"
  by (simp add: traceMode_def ToLower_samples)

lemma abnormalEndWorld_fields:
  "typeFlag abnormalEndWorld = ''audit''" "NArg abnormalEndWorld = 0"
  "jsonOutput abnormalEndWorld = False" "stdoutIsTerm abnormalEndWorld = True"
  "connectErr abnormalEndWorld = None" "uiInitErr abnormalEndWorld = None"
  "closeErr abnormalEndWorld = None" "errAtEnd abnormalEndWorld = Some ''unexpected EOF''"
  "headerWidth0 abnormalEndWorld = 0" "headerAlignment0 abnormalEndWorld = AlignLeft"
  "termHeight0 abnormalEndWorld = 24" "rowsThatFit abnormalEndWorld = (\<lambda>h. h - 1)"
  "auditFeed abnormalEndWorld = []"
  by (simp_all add: abnormalEndWorld_def)

lemma cleanCancelRawWorld_fields:
  "typeFlag cleanCancelRawWorld = ''audit''" "NArg cleanCancelRawWorld = 0"
  "jsonOutput cleanCancelRawWorld = True" "connectErr cleanCancelRawWorld = None"
  "closeErr cleanCancelRawWorld = None" "errAfterClose cleanCancelRawWorld = None"
  "rawFeed cleanCancelRawWorld = [NextBytes ''{}'', Signal]"
  by (simp_all add: cleanCancelRawWorld_def)

lemma uiLoop_no_UiClose:
  "UiClose \<notin> snd ` set (trace st) \<Longrightarrow>
   UiClose \<notin> snd ` set (trace (uiLoop fit row prefix cerr st occs))"
  by (induction fit row prefix cerr st occs rule: uiLoop.induct)
     (auto simp: trace_draw addRow_fields resizeTerminal_fields closeStream_def
        split: option.splits)

lemma uiLoop_trace_prefix:
  "\<exists>more. trace (uiLoop fit row prefix cerr st occs) = trace st @ more"
  by (induction fit row prefix cerr st occs rule: uiLoop.induct)
     (auto simp: trace_draw addRow_fields resizeTerminal_fields closeStream_def)

lemma auditSession_no_UiClose: "UiClose \<notin> snd ` set (trace (auditSession lib w))"
  unfolding auditSession_def by (rule uiLoop_no_UiClose) (simp add: trace_draw)

lemma errorSession_no_UiClose: "UiClose \<notin> snd ` set (trace (errorSession w))"
  unfolding errorSession_def by (rule uiLoop_no_UiClose) (simp add: trace_draw)

lemma auditSession_UiInit: "UiInit \<in> snd ` set (trace (auditSession lib w))"
proof -
  obtain more where "trace (auditSession lib w) =
      trace (draw (rowsThatFit w) Consumer
          \<lparr>table = auditTable (headerWidth0 w) (headerAlignment0 w),
           termHeight = termHeight0 w, trace = [(Consumer, UiInit)], closed = False\<rparr>) @ more"
    unfolding auditSession_def using uiLoop_trace_prefix by blast
  then show ?thesis by (simp add: trace_draw image_Un)
qed

lemma trace_auditSession_abnormalEnd:
  "trace (auditSession sampleLib abnormalEndWorld) = [(Consumer, UiInit), (Consumer, TableDraw [])]"
  "closed (auditSession sampleLib abnormalEndWorld) = False"
  by (simp_all add: auditSession_def abnormalEndWorld_fields trace_draw Rows_draw
      Rows_auditTable closed_draw)

lemma traceAuditLogWithUI_abnormalEnd:
  "traceAuditLogWithUI sampleLib abnormalEndWorld =
     ([UiInit, TableDraw [],
       LogOutput ''Error: audit log stream closed with: unexpected EOF''], Exits 1)"
  by (simp add: traceAuditLogWithUI_def trace_auditSession_abnormalEnd streamErr_def Fatalf_def
      abnormalEndWorld_fields)

lemma traceAudit_abnormalEnd:
  "traceAudit sampleLib abnormalEndWorld =
     ([UiInit, TableDraw [],
       LogOutput ''Error: audit log stream closed with: unexpected EOF''], Exits 1)"
  by (simp add: traceAudit_def traceAuditLogWithUI_abnormalEnd deferStreamClose_def
      abnormalEndWorld_fields)

lemma traceRaw_cleanCancel:
  "traceRaw prefix cleanCancelRawWorld =
     ([Stdout ''{}'', StreamClose, LogOutput (prefix @ ''<nil>'')], Exits 1)"
  by (simp add: traceRaw_def cleanCancelRawWorld_fields streamErr_def Fatalf_def fmt_v_def)

lemma traceError_cleanCancel:
  "traceError cleanCancelRawWorld =
     ([Stdout ''{}'', StreamClose, LogOutput ''Error: error log closed with: <nil>''], Exits 1)"
  by (simp add: traceError_def traceRaw_cleanCancel cleanCancelRawWorld_fields)

subsection \<open>The type of the log\<close>

lemma exitCode_Fatalf: "exitCode (Fatalf done msg) = 1"
  by (simp add: exitCode_def Fatalf_def)

text \<open>The two cases of the \<^verbatim>\<open>switch\<close> do not read the flag again.\<close>

lemma traceRaw_typeFlag: "traceRaw prefix (w\<lparr>typeFlag := t\<rparr>) = traceRaw prefix w"
  by (simp add: traceRaw_def streamErr_def split: prod.splits)

lemma auditSession_typeFlag: "auditSession lib (w\<lparr>typeFlag := t\<rparr>) = auditSession lib w"
  by (simp add: auditSession_def)

lemma errorSession_typeFlag: "errorSession (w\<lparr>typeFlag := t\<rparr>) = errorSession w"
  by (simp add: errorSession_def)

lemma traceAuditLogWithUI_typeFlag:
  "traceAuditLogWithUI lib (w\<lparr>typeFlag := t\<rparr>) = traceAuditLogWithUI lib w"
  by (simp add: traceAuditLogWithUI_def auditSession_typeFlag streamErr_def Let_def
      split: option.splits)

lemma traceErrorLogWithUI_typeFlag:
  "traceErrorLogWithUI (w\<lparr>typeFlag := t\<rparr>) = traceErrorLogWithUI w"
  by (simp add: traceErrorLogWithUI_def errorSession_typeFlag streamErr_def Let_def
      split: option.splits)

lemma traceAudit_typeFlag: "traceAudit lib (w\<lparr>typeFlag := t\<rparr>) = traceAudit lib w"
  by (auto simp: traceAudit_def traceRaw_typeFlag traceAuditLogWithUI_typeFlag
      split: option.splits)

lemma traceError_typeFlag: "traceError (w\<lparr>typeFlag := t\<rparr>) = traceError w"
  by (auto simp: traceError_def traceRaw_typeFlag traceErrorLogWithUI_typeFlag
      split: option.splits)

lemma logTrace_audit:
  assumes "NArg w = 0" and "ToLower lib t = ''audit''"
  shows "logTrace lib (w\<lparr>typeFlag := t\<rparr>) = traceAudit lib w"
  using assms by (simp add: logTrace_def traceMode_def traceAudit_typeFlag)

lemma logTrace_error:
  assumes "NArg w = 0" and "ToLower lib t = ''error''"
  shows "logTrace lib (w\<lparr>typeFlag := t\<rparr>) = traceError w"
  using assms by (simp add: logTrace_def traceMode_def traceError_typeFlag)

lemma logTrace_invalid:
  assumes "NArg w = 0" and "ToLower lib t \<noteq> ''audit''" and "ToLower lib t \<noteq> ''error''"
  shows "logTrace lib (w\<lparr>typeFlag := t\<rparr>) =
    ([LogOutput (''Error: invalid log type --type: '' @ Quote lib t)], Exits 1)"
  using assms by (simp add: logTrace_def traceMode_def Fatalf_def)

lemma traceMode_ToLower:
  assumes "isASCII t \<or> ToLower lib (ToLower lib t) = ToLower lib t"
  shows "traceMode lib t = traceMode lib (ToLower lib t)"
proof -
  have "ToLower lib (ToLower lib t) = ToLower lib t"
    using assms ToLower_idem_ascii by blast
  then show ?thesis by (simp add: traceMode_def)
qed

text \<open>
  Claim C10. The flag \<^verbatim>\<open>--type\<close> is matched without regard to case. The lower-case form
  of a string of ASCII bytes has the small letter wherever the string has a capital letter
  and is the string otherwise. The mode selected for a string \<open>t\<close> is the mode selected
  for the lower-case form of \<open>t\<close>. With no further argument on the command line, the
  command run with the type \<open>t\<close> does what the case \<^verbatim>\<open>"audit"\<close> does, and what the command
  run with the type \<^verbatim>\<open>audit\<close> does, when the lower-case form of \<open>t\<close> is \<^verbatim>\<open>audit\<close> (so
  \<^verbatim>\<open>--type=AUDIT\<close> selects the audit log); likewise for \<^verbatim>\<open>error\<close>; and when the
  lower-case form is neither, the command ends with the fatal error that the type is
  invalid and with status 1.
\<close>

theorem type_flag_case_insensitive:
  "(isASCII t \<longrightarrow> lowerCaseOf t (ToLower lib t))
   \<and> (isASCII t \<or> ToLower lib (ToLower lib t) = ToLower lib t \<longrightarrow>
        traceMode lib t = traceMode lib (ToLower lib t))
   \<and> (NArg w = 0 \<and> ToLower lib t = ''audit'' \<longrightarrow>
        logTrace lib (w\<lparr>typeFlag := t\<rparr>) = traceAudit lib w
        \<and> logTrace lib (w\<lparr>typeFlag := t\<rparr>) = logTrace lib (w\<lparr>typeFlag := ''audit''\<rparr>))
   \<and> (NArg w = 0 \<and> ToLower lib t = ''error'' \<longrightarrow>
        logTrace lib (w\<lparr>typeFlag := t\<rparr>) = traceError w
        \<and> logTrace lib (w\<lparr>typeFlag := t\<rparr>) = logTrace lib (w\<lparr>typeFlag := ''error''\<rparr>))
   \<and> (NArg w = 0 \<and> ToLower lib t \<noteq> ''audit'' \<and> ToLower lib t \<noteq> ''error'' \<longrightarrow>
        logTrace lib (w\<lparr>typeFlag := t\<rparr>) =
          ([LogOutput (''Error: invalid log type --type: '' @ Quote lib t)], Exits 1)
        \<and> exitCode (logTrace lib (w\<lparr>typeFlag := t\<rparr>)) = 1)"
proof -
  have a: "isASCII t \<longrightarrow> lowerCaseOf t (ToLower lib t)"
    by (simp add: ToLower_ascii lowerCaseOf_asciiToLower)
  have b: "isASCII t \<or> ToLower lib (ToLower lib t) = ToLower lib t \<longrightarrow>
        traceMode lib t = traceMode lib (ToLower lib t)"
    using traceMode_ToLower by blast
  have c: "NArg w = 0 \<and> ToLower lib t = ''audit'' \<longrightarrow>
        logTrace lib (w\<lparr>typeFlag := t\<rparr>) = traceAudit lib w
        \<and> logTrace lib (w\<lparr>typeFlag := t\<rparr>) = logTrace lib (w\<lparr>typeFlag := ''audit''\<rparr>)"
    using logTrace_audit [of w lib t] logTrace_audit [of w lib "''audit''"]
    by (simp add: ToLower_samples)
  have d: "NArg w = 0 \<and> ToLower lib t = ''error'' \<longrightarrow>
        logTrace lib (w\<lparr>typeFlag := t\<rparr>) = traceError w
        \<and> logTrace lib (w\<lparr>typeFlag := t\<rparr>) = logTrace lib (w\<lparr>typeFlag := ''error''\<rparr>)"
    using logTrace_error [of w lib t] logTrace_error [of w lib "''error''"]
    by (simp add: ToLower_samples)
  have e: "NArg w = 0 \<and> ToLower lib t \<noteq> ''audit'' \<and> ToLower lib t \<noteq> ''error'' \<longrightarrow>
        logTrace lib (w\<lparr>typeFlag := t\<rparr>) =
          ([LogOutput (''Error: invalid log type --type: '' @ Quote lib t)], Exits 1)
        \<and> exitCode (logTrace lib (w\<lparr>typeFlag := t\<rparr>)) = 1"
    using logTrace_invalid [of w lib t] by (simp add: exitCode_def)
  from a b c d e show ?thesis by blast
qed

theorem type_flag_case_insensitive_witness:
  "isASCII ''AUDIT''
   \<and> lowerCaseOf ''AUDIT'' ''audit''
   \<and> traceMode sampleLib ''AUDIT'' = traceMode sampleLib ''audit''
   \<and> logTrace sampleLib (abnormalEndWorld\<lparr>typeFlag := ''AUDIT''\<rparr>) =
       ([UiInit, TableDraw [],
         LogOutput ''Error: audit log stream closed with: unexpected EOF''], Exits 1)
   \<and> logTrace sampleLib (abnormalEndWorld\<lparr>typeFlag := ''AUDIT''\<rparr>) =
       logTrace sampleLib (abnormalEndWorld\<lparr>typeFlag := ''audit''\<rparr>)
   \<and> logTrace sampleLib (cleanCancelRawWorld\<lparr>typeFlag := ''Error''\<rparr>) =
       ([Stdout ''{}'', StreamClose, LogOutput ''Error: error log closed with: <nil>''], Exits 1)
   \<and> logTrace sampleLib (abnormalEndWorld\<lparr>typeFlag := ''Syslog''\<rparr>) =
       ([LogOutput (''Error: invalid log type --type: '' @ Quote sampleLib ''Syslog'')], Exits 1)"
proof -
  have a: "isASCII ''AUDIT''" "isASCII ''Error''" by (simp_all add: isASCII_samples)
  have n: "NArg abnormalEndWorld = 0" "NArg cleanCancelRawWorld = 0"
    by (simp_all add: abnormalEndWorld_fields cleanCancelRawWorld_fields)
  have l: "ToLower sampleLib ''AUDIT'' = ''audit''" "ToLower sampleLib ''Error'' = ''error''"
    "ToLower sampleLib ''Syslog'' \<noteq> ''audit''" "ToLower sampleLib ''Syslog'' \<noteq> ''error''"
    by (simp_all add: ToLower_samples)
  note t1 = type_flag_case_insensitive [of "''AUDIT''" sampleLib abnormalEndWorld]
  note t2 = type_flag_case_insensitive [of "''Error''" sampleLib cleanCancelRawWorld]
  note t3 = type_flag_case_insensitive [of "''Syslog''" sampleLib abnormalEndWorld]
  have 1: "lowerCaseOf ''AUDIT'' ''audit''" using t1 a(1) l(1) by simp
  have 2: "traceMode sampleLib ''AUDIT'' = traceMode sampleLib ''audit''"
    using t1 a(1) l(1) by simp
  have 3: "logTrace sampleLib (abnormalEndWorld\<lparr>typeFlag := ''AUDIT''\<rparr>) =
      traceAudit sampleLib abnormalEndWorld"
    "logTrace sampleLib (abnormalEndWorld\<lparr>typeFlag := ''AUDIT''\<rparr>) =
       logTrace sampleLib (abnormalEndWorld\<lparr>typeFlag := ''audit''\<rparr>)"
    using t1 n(1) l(1) by blast+
  have 4: "logTrace sampleLib (cleanCancelRawWorld\<lparr>typeFlag := ''Error''\<rparr>) =
      traceError cleanCancelRawWorld"
    using t2 n(2) l(2) by blast
  have 5: "logTrace sampleLib (abnormalEndWorld\<lparr>typeFlag := ''Syslog''\<rparr>) =
       ([LogOutput (''Error: invalid log type --type: '' @ Quote sampleLib ''Syslog'')], Exits 1)"
    using t3 n(1) l(3) l(4) by blast
  from a(1) 1 2 3 4 5 show ?thesis
    by (simp add: traceAudit_abnormalEnd traceError_cleanCancel)
qed

subsection \<open>The terminal on the exit paths\<close>

text \<open>
  Whenever the loop of \<^verbatim>\<open>traceAuditLogWithUI\<close> ends with a stream error, the terminal has been
  acquired, is never released, and the process exits with status 1.
\<close>

lemma fatal_stream_error_leaves_ui_open:
  assumes "uiInitErr w = None"
    and "streamErr w (closed (auditSession lib w)) = Some err"
  shows "UiInit \<in> set (fst (traceAuditLogWithUI lib w))
    \<and> UiClose \<notin> set (fst (traceAuditLogWithUI lib w))
    \<and> snd (traceAuditLogWithUI lib w) = Exits 1"
  using assms auditSession_no_UiClose [of lib w] auditSession_UiInit [of lib w]
  by (simp add: traceAuditLogWithUI_def Let_def Fatalf_def)

text \<open>
  When the loop ends without a stream error the function returns, and the deferred calls
  release the terminal and draw the table once more.
\<close>

lemma clean_end_releases_ui:
  assumes "uiInitErr w = None"
    and "streamErr w (closed (auditSession lib w)) = None"
  shows "\<exists>rows. traceAuditLogWithUI lib w =
    (map snd (trace (auditSession lib w)) @ [UiClose, TableDraw rows], Returns)"
  using assms by (simp add: traceAuditLogWithUI_def Let_def deferred_def trace_draw)

text \<open>
  Claim C1. If the stream ends with an error, the error should be reported only after the
  terminal has been released, and the process should end only after releasing the
  terminal. The code does not do so: in the session \<open>abnormalEndWorld\<close> the terminal is
  acquired and the table drawn, the error is logged by \<^verbatim>\<open>stdlog.Fatalf\<close> and the process
  exits with status 1; the deferred \<^verbatim>\<open>ui.Close()\<close> never runs.
\<close>

theorem abnormal_end_skips_ui_close:
  "logTrace sampleLib abnormalEndWorld =
     ([UiInit, TableDraw [],
       LogOutput ''Error: audit log stream closed with: unexpected EOF''], Exits 1)
   \<and> UiClose \<notin> set (fst (logTrace sampleLib abnormalEndWorld))
   \<and> exitCode (logTrace sampleLib abnormalEndWorld) = 1"
proof -
  have "logTrace sampleLib abnormalEndWorld = traceAudit sampleLib abnormalEndWorld"
    by (simp add: logTrace_def traceMode_sample_audit abnormalEndWorld_fields)
  then have "logTrace sampleLib abnormalEndWorld =
     ([UiInit, TableDraw [],
       LogOutput ''Error: audit log stream closed with: unexpected EOF''], Exits 1)"
    by (simp add: traceAudit_abnormalEnd)
  then show ?thesis by (simp add: exitCode_def)
qed

theorem abnormal_end_skips_ui_close_witness:
  "stdoutIsTerm abnormalEndWorld
   \<and> jsonOutput abnormalEndWorld = False
   \<and> NArg abnormalEndWorld = 0
   \<and> fst (logTrace sampleLib abnormalEndWorld) =
       [UiInit, TableDraw [],
        LogOutput ''Error: audit log stream closed with: unexpected EOF'']
   \<and> snd (logTrace sampleLib abnormalEndWorld) = Exits 1"
  using abnormal_end_skips_ui_close by (simp add: abnormalEndWorld_fields)

subsection \<open>The status of the process\<close>

lemma traceRaw_exits_1: "exitCode (traceRaw prefix w) = 1"
  by (simp add: traceRaw_def exitCode_Fatalf split: prod.splits)

lemma ui_clean_end_exits_0:
  assumes "NArg w = 0" and "traceMode lib (typeFlag w) = AuditMode" and "connectErr w = None"
    and "stdoutIsTerm w" and "\<not> jsonOutput w" and "uiInitErr w = None"
    and "streamErr w (closed (auditSession lib w)) = None"
  shows "exitCode (logTrace lib w) = 0"
  using assms
  by (simp add: logTrace_def traceAudit_def traceAuditLogWithUI_def Let_def
      deferStreamClose_def exitCode_def)

text \<open>As text, the command exits with status 1 however the stream ended.\<close>

lemma as_text_exits_1:
  assumes "NArg w = 0" and "traceMode lib (typeFlag w) \<noteq> InvalidType" and "connectErr w = None"
    and "\<not> stdoutIsTerm w \<or> jsonOutput w"
  shows "exitCode (logTrace lib w) = 1"
  using assms
  by (cases "traceMode lib (typeFlag w)")
     (auto simp: logTrace_def traceAudit_def traceError_def traceRaw_exits_1)

text \<open>
  Claim C3. A cancel requested by the user that leads to a clean end should give the
  status 0, with the terminal UI and with the output as text. With the output as text the
  code does not do so: in the session \<open>cleanCancelRawWorld\<close> the signal closes the stream
  without an error, the stream reports no error, and the command still ends in
  \<^verbatim>\<open>stdlog.Fatalf\<close> with status 1.
\<close>

theorem clean_cancel_as_text_exits_1:
  "logTrace sampleLib cleanCancelRawWorld =
     ([Stdout ''{}'', StreamClose, LogOutput ''Error: audit log closed with: <nil>''], Exits 1)
   \<and> exitCode (logTrace sampleLib cleanCancelRawWorld) = 1"
proof -
  have "logTrace sampleLib cleanCancelRawWorld =
      traceRaw ''Error: audit log closed with: '' cleanCancelRawWorld"
    by (simp add: logTrace_def traceAudit_def traceMode_sample_audit cleanCancelRawWorld_fields)
  then show ?thesis by (simp add: traceRaw_cleanCancel exitCode_def)
qed

theorem clean_cancel_as_text_exits_1_witness:
  "jsonOutput cleanCancelRawWorld
   \<and> NArg cleanCancelRawWorld = 0
   \<and> errAfterClose cleanCancelRawWorld = None
   \<and> snd (logTrace sampleLib cleanCancelRawWorld) = Exits 1"
  using clean_cancel_as_text_exits_1 by (simp add: cleanCancelRawWorld_fields)

end
